theory Spec2Isabelle
  imports Main
begin

section \<open>Values shared by the account layer\<close>

text \<open>
  The TypeScript type \<^verbatim>\<open>Hex\<close> is the template-literal type \<^verbatim>\<open>`0x${string}`\<close>;
  \<^verbatim>\<open>Address\<close> and \<^verbatim>\<open>Hash\<close> are the same type. \<open>Hex s\<close> stands for the
  JavaScript string made of the two characters \<^verbatim>\<open>0x\<close> followed by \<open>s\<close>.
\<close>

datatype Hex = Hex string

fun hex_string :: "Hex \<Rightarrow> string" where
  "hex_string (Hex s) = ''0x'' @ s"

text \<open>JavaScript's truthiness of a string: every string but the empty one is truthy.\<close>

definition truthy_string :: "string \<Rightarrow> bool" where
  "truthy_string s = (s \<noteq> [])"

text \<open>Truthiness of a value of type \<^verbatim>\<open>Hex | undefined\<close>, as \<^verbatim>\<open>Boolean(code)\<close> and
  \<^verbatim>\<open>deployer && deployerData\<close> test it.\<close>

definition truthy :: "Hex option \<Rightarrow> bool" where
  "truthy h = (case h of None \<Rightarrow> False | Some x \<Rightarrow> truthy_string (hex_string x))"

text \<open>
  Every \<^verbatim>\<open>throw\<close> and every rejected promise is a value: \<open>BaseError\<close> is the
  library's own error class with its message, \<open>TypeError\<close> and \<open>RangeError\<close> are the
  JavaScript runtime's, and \<open>ExternalError\<close> stands for a failure raised inside a
  collaborator (transport, ABI codec, owner signer).
\<close>

datatype error = BaseError string | TypeError string | RangeError string | ExternalError string

text \<open>
  A JavaScript number is a double. The code converts numbers to bigints only, so a number
  is kept as the integer it is, or as \<open>NonInteger\<close> (a fraction, NaN or an infinity).
\<close>

datatype js_number = Integer int | NonInteger

text \<open>
  \<^verbatim>\<open>Number(b)\<close> of a bigint \<open>b\<close> is the IEEE-754 double nearest to \<open>b\<close>, ties to the
  even significand: an integer again, or an infinity from \<open>2^1024\<close> on. \<open>bitLength m\<close> is
  the number of binary digits of \<open>m\<close>, and \<open>roundToDouble m\<close> keeps the 53 leading ones.
\<close>

fun bitLength :: "nat \<Rightarrow> nat" where
  "bitLength n = (if n = 0 then 0 else Suc (bitLength (n div 2)))"

declare bitLength.simps [simp del]

definition roundToDouble :: "nat \<Rightarrow> nat" where
  "roundToDouble m =
     (let e = bitLength m - 53;
          q = m div 2 ^ e;
          r = m mod 2 ^ e;
          q' = (if 2 ^ e < 2 * r \<or> (2 * r = 2 ^ e \<and> odd q) then q + 1 else q)
      in q' * 2 ^ e)"

definition Number :: "int \<Rightarrow> js_number" where
  "Number v =
     (let m = roundToDouble (nat \<bar>v\<bar>)
      in if 2 ^ 1024 \<le> m then NonInteger
         else Integer (if v < 0 then - int m else int m))"

text \<open>\<^verbatim>\<open>BigInt(x)\<close> of a number: exact on an integer, a RangeError otherwise.\<close>

definition BigInt :: "js_number \<Rightarrow> error + int" where
  "BigInt x =
     (case x of
        Integer i \<Rightarrow> Inr i
      | NonInteger \<Rightarrow> Inl (RangeError ''The number cannot be converted to a BigInt because it is not an integer''))"

section \<open>Asynchronous operations\<close>

text \<open>
  An \<^verbatim>\<open>async\<close> function run to completion: from the state it starts in, it gives the
  value its promise resolves to, or the error it rejects with, together with the state it
  leaves. The state \<open>'x\<close> is everything outside the account value that an operation can
  read or change: the chain behind the client, the variables an implementation closes
  over, the nonce key manager's bookkeeping.
\<close>

type_synonym ('x, 'a) async = "'x \<Rightarrow> (error + 'a) \<times> 'x"

definition resolve :: "'a \<Rightarrow> ('x, 'a) async" where
  "resolve v x = (Inr v, x)"

definition reject :: "error \<Rightarrow> ('x, 'a) async" where
  "reject e x = (Inl e, x)"

text \<open>A synchronous computation inside an \<^verbatim>\<open>async\<close> function: its throw rejects the promise.\<close>

definition sync :: "error + 'a \<Rightarrow> ('x, 'a) async" where
  "sync r x = (r, x)"

definition await :: "('x, 'a) async \<Rightarrow> ('a \<Rightarrow> ('x, 'b) async) \<Rightarrow> ('x, 'b) async" where
  "await m f x = (case m x of (Inl e, x') \<Rightarrow> (Inl e, x') | (Inr v, x') \<Rightarrow> f v x')"

text \<open>
  \<^verbatim>\<open>Promise.all([p, q])\<close>: both operations are started and both run to their end,
  also when one of them rejects; the result is the pair of their values, or a rejection.
  The two are run one after the other, in the order of the array, and when both reject
  the first one's error is reported.
\<close>

definition Promise_all :: "('x, 'a) async \<Rightarrow> ('x, 'b) async \<Rightarrow> ('x, 'a \<times> 'b) async" where
  "Promise_all p q x =
     (case p x of (r1, x1) \<Rightarrow>
        (case q x1 of (r2, x2) \<Rightarrow>
           ((case r1 of
               Inl e \<Rightarrow> Inl e
             | Inr a \<Rightarrow> (case r2 of Inl e \<Rightarrow> Inl e | Inr b \<Rightarrow> Inr (a, b))), x2)))"

section \<open>Data model\<close>

text \<open>
  \<^verbatim>\<open>
  type Call = { to: Hex, data?: Hex | undefined, value?: bigint | undefined }
  \<close>
\<close>

record Call =
  to :: Hex
  data :: "Hex option"
  "value" :: "int option"

record DeployerArgs =
  deployer :: "Hex option"
  deployerData :: "Hex option"

text \<open>
  The arguments of the ABI functions the account layer calls: an address, a
  \<open>uint256\<close>, a \<open>bytes\<close>, arrays of them, and an array of
  \<open>(address target, uint256 value, bytes data)\<close> tuples.
\<close>

datatype abi_value =
  AbiAddress Hex | AbiUint int | AbiBytes Hex
  | AbiAddressArray "Hex list" | AbiUintArray "int list" | AbiBytesArray "Hex list"
  | AbiTupleArray "(Hex \<times> int \<times> Hex) list"

text \<open>An ABI item of type \<open>function\<close>: its name and the types of its inputs.\<close>

record AbiFunction =
  abi_name :: string
  abi_inputs :: "string list"

text \<open>What \<^verbatim>\<open>decodeFunctionData\<close> returns.\<close>

record FunctionData =
  functionName :: string
  args :: "abi_value list"

datatype SignableMessage = Message string | RawMessage Hex

record TypedDataDomain =
  chainId :: "int option"
  name :: "string option"
  salt :: "Hex option"
  verifyingContract :: "Hex option"
  version :: "string option"

record TypedDataDefinition =
  domain :: "TypedDataDomain option"
  types :: "(string \<times> (string \<times> string) list) list"
  primaryType :: string
  message :: "(string \<times> abi_value) list"

text \<open>
  Of a transaction request the gas hook reads one field; the record is extensible, so a
  request with more fields is a value of \<open>'a TransactionRequest_scheme\<close>.
\<close>

record TransactionRequest =
  verificationGasLimit :: "int option"

record EstimateGasResult =
  est_verificationGasLimit :: int

text \<open>
  The client: its chain, and the two public actions the account layer runs on it.
  \<^verbatim>\<open>readContract\<close> is typed by the ABI's output, \<open>uint256\<close> at one call site and
  \<open>address\<close> at the other; its arguments are the ABI, the contract's address, the
  function's name and the call's arguments.
\<close>

record Chain =
  chain_id :: int

record 'x Client =
  chain :: "Chain option"
  getCode :: "Hex \<Rightarrow> ('x, Hex option) async"
  readContract_uint256 :: "AbiFunction list \<Rightarrow> Hex \<Rightarrow> string \<Rightarrow> abi_value list \<Rightarrow> ('x, int) async"
  readContract_address :: "AbiFunction list \<Rightarrow> Hex \<Rightarrow> string \<Rightarrow> abi_value list \<Rightarrow> ('x, Hex) async"

text \<open>
  A nonce manager, as far as the account layer uses one:
  \<^verbatim>\<open>consume({ address, chainId, client })\<close> gives a number. A source of nonces has a
  \<^verbatim>\<open>get\<close> and a \<^verbatim>\<open>set\<close>.
\<close>

record 'x NonceManager =
  consume :: "Hex \<Rightarrow> int \<Rightarrow> 'x Client \<Rightarrow> ('x, js_number) async"

record 'x NonceManagerSource =
  source_get :: "Hex \<Rightarrow> int \<Rightarrow> 'x Client \<Rightarrow> ('x, js_number) async"
  source_set :: "Hex \<Rightarrow> int \<Rightarrow> 'x Client \<Rightarrow> js_number \<Rightarrow> ('x, unit) async"

record GetNonceParameters =
  key :: "int option"

text \<open>
  \<^verbatim>\<open>NativeSmartAccountImplementation\<close>, without \<^verbatim>\<open>extend\<close>,
  \<^verbatim>\<open>getStubSignature\<close> and \<^verbatim>\<open>signTransaction\<close>, which the factory hands on as
  they are. An optional member is an \<open>option\<close>.
\<close>

record 'x NativeSmartAccountImplementation =
  client :: "'x Client"
  getAddress :: "('x, Hex) async"
  decodeCalls :: "(Hex \<Rightarrow> ('x, Call list) async) option"
  encodeCalls :: "Call list \<Rightarrow> ('x, Hex) async"
  getDeployerArgs :: "('x, DeployerArgs) async"
  getNonce :: "(GetNonceParameters \<Rightarrow> ('x, int) async) option"
  nonceKeyManager :: "'x NonceManager option"
  sign :: "(Hex \<Rightarrow> ('x, Hex) async) option"
  signMessage :: "SignableMessage \<Rightarrow> ('x, Hex) async"
  signTypedData :: "TypedDataDefinition \<Rightarrow> ('x, Hex) async"
  transaction_estimateGas :: "(TransactionRequest \<Rightarrow> ('x, EstimateGasResult) async) option"

text \<open>
  What the account layer takes from the rest of the library, whose code is not part of
  the account layer: the ERC-6492 serializer (address, data, signature), the two hash
  functions, the ABI codec with the selector of an ABI function, the address of the nonce
  manager predeploy, \<^verbatim>\<open>createNonceManager\<close> and the clock \<^verbatim>\<open>Date.now\<close>.
  The decoder of the codec spells what it returns in its own way: an address in checksum
  case (\<^verbatim>\<open>checksumAddress\<close>), bytes as the hexadecimal digits of the bytes it read
  (\<open>decodedBytes\<close> of the string that was encoded).
\<close>

record 'x Library =
  serializeErc6492Signature :: "Hex \<Rightarrow> Hex \<Rightarrow> Hex \<Rightarrow> error + Hex"
  hashTypedData :: "TypedDataDefinition \<Rightarrow> error + Hex"
  hashMessage :: "SignableMessage \<Rightarrow> error + Hex"
  encodeFunctionData :: "AbiFunction list \<Rightarrow> string \<Rightarrow> abi_value list \<Rightarrow> error + Hex"
  decodeFunctionData :: "AbiFunction list \<Rightarrow> Hex \<Rightarrow> error + FunctionData"
  toFunctionSelector :: "AbiFunction \<Rightarrow> Hex"
  checksumAddress :: "Hex \<Rightarrow> Hex"
  decodedBytes :: "Hex \<Rightarrow> Hex"
  nonceManagerPredeployAddress :: Hex
  createNonceManager :: "'x NonceManagerSource \<Rightarrow> 'x NonceManager"
  Date_now :: "('x, js_number) async"

section \<open>The factory \<^verbatim>\<open>toNativeSmartAccount\<close>\<close>

text \<open>
  The factory closes over one variable of its own, \<^verbatim>\<open>let deployed = false\<close>. The state
  of a smart account is that flag together with the state outside the account.
\<close>

record 'x account_state =
  deployed :: bool
  external :: 'x

text \<open>An operation of the implementation or the client, run from inside the account.\<close>

definition outside :: "('x, 'a) async \<Rightarrow> ('x account_state, 'a) async" where
  "outside m st = (case m (external st) of (r, x') \<Rightarrow> (r, st\<lparr>external := x'\<rparr>))"

text \<open>
  The value the factory returns: the implementation it wraps, the nonce key manager it
  bound and the address it resolved. The methods the factory defines on that value are
  the functions \<open>account_\<dots>\<close> below; every other member is the implementation's.
\<close>

record 'x NativeSmartAccount =
  implementation :: "'x NativeSmartAccountImplementation"
  account_nonceKeyManager :: "'x NonceManager"
  address :: Hex

text \<open>
  \<^verbatim>\<open>
  nonceKeyManager = createNonceManager({
    source: {
      get() { return Date.now() },
      set() {},
    },
  }),
  \<close>
\<close>

definition defaultNonceKeyManager :: "'x Library \<Rightarrow> 'x NonceManager" where
  "defaultNonceKeyManager lib =
     createNonceManager lib
       \<lparr>source_get = (\<lambda>a c cl. Date_now lib),
        source_set = (\<lambda>a c cl n. resolve ())\<rparr>"

text \<open>
  \<^verbatim>\<open>
  const { extend, nonceKeyManager = createNonceManager(...), ...rest } = implementation
  let deployed = false
  const address = await implementation.getAddress()
  return { ...extend, ...rest, address, ... }
  \<close>
  A failure of \<^verbatim>\<open>getAddress\<close> rejects the factory's promise: no account is returned.
\<close>

definition toNativeSmartAccount ::
  "'x Library \<Rightarrow> 'x NativeSmartAccountImplementation \<Rightarrow> 'x \<Rightarrow>
   (error + 'x NativeSmartAccount) \<times> 'x account_state" where
  "toNativeSmartAccount lib impl x =
     (let manager = (case nonceKeyManager impl of None \<Rightarrow> defaultNonceKeyManager lib | Some m \<Rightarrow> m)
      in case getAddress impl x of
           (Inl e, x') \<Rightarrow> (Inl e, \<lparr>deployed = False, external = x'\<rparr>)
         | (Inr a, x') \<Rightarrow>
             (Inr \<lparr>implementation = impl, account_nonceKeyManager = manager, address = a\<rparr>,
              \<lparr>deployed = False, external = x'\<rparr>))"

text \<open>
  \<^verbatim>\<open>
  async isDeployed() {
    if (deployed) return true
    const code = await getAction(implementation.client, getCode, 'getCode')({ address })
    deployed = Boolean(code)
    return deployed
  }
  \<close>
\<close>

definition account_isDeployed :: "'x NativeSmartAccount \<Rightarrow> ('x account_state, bool) async" where
  "account_isDeployed account st =
     (if deployed st then (Inr True, st)
      else case getCode (client (implementation account)) (address account) (external st) of
             (Inl e, x') \<Rightarrow> (Inl e, st\<lparr>external := x'\<rparr>)
           | (Inr code, x') \<Rightarrow> (Inr (truthy code), st\<lparr>deployed := truthy code, external := x'\<rparr>))"

text \<open>
  \<^verbatim>\<open>
  async getDeployerArgs() {
    if ('isDeployed' in this && (await this.isDeployed()))
      return { deployer: undefined, deployerData: undefined }
    return implementation.getDeployerArgs()
  }
  \<close>
  Called as a method of the account, \<^verbatim>\<open>this\<close> is the account, which has
  \<^verbatim>\<open>isDeployed\<close>.
\<close>

definition account_getDeployerArgs ::
  "'x NativeSmartAccount \<Rightarrow> ('x account_state, DeployerArgs) async" where
  "account_getDeployerArgs account =
     await (account_isDeployed account)
       (\<lambda>d. if d then resolve \<lparr>deployer = None, deployerData = None\<rparr>
            else outside (getDeployerArgs (implementation account)))"

text \<open>
  \<^verbatim>\<open>
  parseAbi(['function getNonce(address, uint192) pure returns (uint256)'])
  \<close>
\<close>

definition getNonce_abi :: "AbiFunction list" where
  "getNonce_abi = [\<lparr>abi_name = ''getNonce'', abi_inputs = [''address'', ''uint192'']\<rparr>]"

text \<open>
  \<^verbatim>\<open>
  async getNonce(parameters) {
    const key =
      parameters?.key ??
      BigInt(
        await nonceKeyManager.consume({
          address,
          chainId: implementation.client.chain!.id!,
          client: implementation.client,
        }),
      )
    if (implementation.getNonce)
      return await implementation.getNonce({ ...parameters, key })
    const nonce = await readContract(implementation.client, {
      abi: parseAbi([...]),
      address: nonceManagerPredeployAddress,
      functionName: 'getNonce',
      args: [address, key],
    })
    return nonce
  }
  \<close>
  Reading \<^verbatim>\<open>id\<close> of a client without a chain is a TypeError, raised before the
  manager is called.
\<close>

definition account_getNonce ::
  "'x Library \<Rightarrow> 'x NativeSmartAccount \<Rightarrow> GetNonceParameters option \<Rightarrow>
   ('x account_state, int) async" where
  "account_getNonce lib account parameters =
     await
       (case (case parameters of None \<Rightarrow> None | Some p \<Rightarrow> key p) of
          Some k \<Rightarrow> resolve k
        | None \<Rightarrow>
            (case chain (client (implementation account)) of
               None \<Rightarrow> reject (TypeError ''Cannot read properties of undefined (reading id)'')
             | Some c \<Rightarrow>
                 await
                   (outside (consume (account_nonceKeyManager account) (address account)
                      (chain_id c) (client (implementation account))))
                   (\<lambda>n. sync (BigInt n))))
       (\<lambda>k. case getNonce (implementation account) of
              Some f \<Rightarrow> outside (f \<lparr>key = Some k\<rparr>)
            | None \<Rightarrow>
                outside (readContract_uint256 (client (implementation account)) getNonce_abi
                  (nonceManagerPredeployAddress lib) ''getNonce''
                  [AbiAddress (address account), AbiUint k]))"

text \<open>
  The three signing methods end in the same lines:
  \<^verbatim>\<open>
  if (deployer && deployerData)
    return serializeErc6492Signature({ address: deployer, data: deployerData, signature })
  return signature
  \<close>
\<close>

definition wrapSignature :: "'x Library \<Rightarrow> DeployerArgs \<times> Hex \<Rightarrow> error + Hex" where
  "wrapSignature lib r =
     (case r of (deployerArgs, signature) \<Rightarrow>
        (case deployer deployerArgs of
           None \<Rightarrow> Inr signature
         | Some d \<Rightarrow>
             (case deployerData deployerArgs of
                None \<Rightarrow> Inr signature
              | Some dd \<Rightarrow>
                  if truthy (Some d) \<and> truthy (Some dd)
                  then serializeErc6492Signature lib d dd signature
                  else Inr signature)))"

text \<open>
  \<^verbatim>\<open>
  async signMessage(parameters) {
    const [{ deployer, deployerData }, signature] = await Promise.all([
      this.getDeployerArgs(),
      implementation.signMessage(parameters),
    ])
    ...
  }
  \<close>
  and the same for \<^verbatim>\<open>signTypedData\<close>. The account has a \<^verbatim>\<open>sign\<close> only when the
  implementation has one: \<^verbatim>\<open>...(implementation.sign ? { async sign(parameters) {...} } : {})\<close>.
\<close>

definition account_signMessage ::
  "'x Library \<Rightarrow> 'x NativeSmartAccount \<Rightarrow> SignableMessage \<Rightarrow> ('x account_state, Hex) async" where
  "account_signMessage lib account parameters =
     await
       (Promise_all (account_getDeployerArgs account)
          (outside (signMessage (implementation account) parameters)))
       (\<lambda>r. sync (wrapSignature lib r))"

definition account_signTypedData ::
  "'x Library \<Rightarrow> 'x NativeSmartAccount \<Rightarrow> TypedDataDefinition \<Rightarrow> ('x account_state, Hex) async" where
  "account_signTypedData lib account parameters =
     await
       (Promise_all (account_getDeployerArgs account)
          (outside (signTypedData (implementation account) parameters)))
       (\<lambda>r. sync (wrapSignature lib r))"

definition account_sign ::
  "'x Library \<Rightarrow> 'x NativeSmartAccount \<Rightarrow> (Hex \<Rightarrow> ('x account_state, Hex) async) option" where
  "account_sign lib account =
     (case sign (implementation account) of
        None \<Rightarrow> None
      | Some implementation_sign \<Rightarrow>
          Some (\<lambda>parameters.
            await
              (Promise_all (account_getDeployerArgs account) (outside (implementation_sign parameters)))
              (\<lambda>r. sync (wrapSignature lib r))))"

text \<open>
  \<^verbatim>\<open>isDeployed()\<close> has one \<^verbatim>\<open>await\<close>, and other code of the same account can
  run while it waits. Its two halves: up to the \<^verbatim>\<open>await\<close> it either returns
  \<open>true\<close> from the flag or sends \<^verbatim>\<open>getCode\<close>, whose answer the chain gives from
  the state it is in; from the \<^verbatim>\<open>await\<close> on it takes the answer, assigns
  \<^verbatim>\<open>deployed = Boolean(code)\<close> whatever the flag holds by then, and returns it.
\<close>

datatype isDeployed_phase = Returned bool | Awaiting "error + Hex option"

definition isDeployed_enter ::
  "'x NativeSmartAccount \<Rightarrow> 'x account_state \<Rightarrow> isDeployed_phase \<times> 'x account_state" where
  "isDeployed_enter account st =
     (if deployed st then (Returned True, st)
      else case getCode (client (implementation account)) (address account) (external st) of
             (answer, x') \<Rightarrow> (Awaiting answer, st\<lparr>external := x'\<rparr>))"

definition isDeployed_resume :: "error + Hex option \<Rightarrow> ('x account_state, bool) async" where
  "isDeployed_resume answer st =
     (case answer of
        Inl e \<Rightarrow> (Inl e, st)
      | Inr code \<Rightarrow> (Inr (truthy code), st\<lparr>deployed := truthy code\<rparr>))"

text \<open>
  Calls of \<^verbatim>\<open>isDeployed()\<close> on one account that may overlap: call \<open>i\<close> enters, and
  later resumes with the answer it waits for; in between other calls enter and resume and
  the world outside changes. A run keeps the account's state, the answers that calls still
  wait for, and what the calls returned, in the order in which they returned.
\<close>

datatype 'x event = Enter nat | Resume nat | Outside "'x \<Rightarrow> 'x"

record 'x run =
  run_state :: "'x account_state"
  run_awaiting :: "(nat \<times> (error + Hex option)) list"
  run_returned :: "(nat \<times> (error + bool)) list"

fun run_event :: "'x NativeSmartAccount \<Rightarrow> 'x event \<Rightarrow> 'x run \<Rightarrow> 'x run" where
  "run_event account (Enter i) r =
     (case isDeployed_enter account (run_state r) of
        (Returned b, st') \<Rightarrow>
          r\<lparr>run_state := st', run_returned := run_returned r @ [(i, Inr b)]\<rparr>
      | (Awaiting answer, st') \<Rightarrow>
          r\<lparr>run_state := st', run_awaiting := run_awaiting r @ [(i, answer)]\<rparr>)"
| "run_event account (Resume i) r =
     (case map_of (run_awaiting r) i of
        None \<Rightarrow> r
      | Some answer \<Rightarrow>
          (case isDeployed_resume answer (run_state r) of
             (result, st') \<Rightarrow>
               r\<lparr>run_state := st',
                 run_awaiting := filter (\<lambda>p. fst p \<noteq> i) (run_awaiting r),
                 run_returned := run_returned r @ [(i, result)]\<rparr>))"
| "run_event account (Outside change) r =
     r\<lparr>run_state := (run_state r)\<lparr>external := change (external (run_state r))\<rparr>\<rparr>"

definition run_events ::
  "'x NativeSmartAccount \<Rightarrow> 'x event list \<Rightarrow> 'x account_state \<Rightarrow> 'x run" where
  "run_events account events st =
     foldl (\<lambda>r e. run_event account e r)
       \<lparr>run_state = st, run_awaiting = [], run_returned = []\<rparr> events"

text \<open>
  A run of \<^verbatim>\<open>isDeployed()\<close> calls on one account, each awaited before the next is
  made. Before each call the world outside the account may have changed in any way.
\<close>

fun isDeployed_calls ::
  "'x NativeSmartAccount \<Rightarrow> ('x \<Rightarrow> 'x) list \<Rightarrow> 'x account_state \<Rightarrow> (error + bool) list" where
  "isDeployed_calls account [] st = []"
| "isDeployed_calls account (change # changes) st =
     (case account_isDeployed account (st\<lparr>external := change (external st)\<rparr>) of
        (r, st') \<Rightarrow> r # isDeployed_calls account changes st')"

section \<open>The implementation \<^verbatim>\<open>toSimpleNativeSmartAccount\<close>\<close>

text \<open>
  The function items of the account's ABI and of the deployer's ABI (the codec looks at
  no other item), and the deployer's address.
\<close>

definition abi :: "AbiFunction list" where
  "abi =
    [\<lparr>abi_name = ''UPGRADE_INTERFACE_VERSION'', abi_inputs = []\<rparr>,
     \<lparr>abi_name = ''_packValidationData'', abi_inputs = [''bytes4'', ''uint48'', ''uint48'']\<rparr>,
     \<lparr>abi_name = ''execute'', abi_inputs = [''address'', ''uint256'', ''bytes'']\<rparr>,
     \<lparr>abi_name = ''executeBatch'', abi_inputs = [''address[]'', ''uint256[]'', ''bytes[]'']\<rparr>,
     \<lparr>abi_name = ''initialize'', abi_inputs = [''address'']\<rparr>,
     \<lparr>abi_name = ''owner'', abi_inputs = []\<rparr>,
     \<lparr>abi_name = ''proxiableUUID'', abi_inputs = []\<rparr>,
     \<lparr>abi_name = ''upgradeToAndCall'', abi_inputs = [''address'', ''bytes'']\<rparr>,
     \<lparr>abi_name = ''validateTransaction'', abi_inputs = [''uint256'', ''bytes32'', ''bytes'']\<rparr>]"

definition deployerAbi :: "AbiFunction list" where
  "deployerAbi =
    [\<lparr>abi_name = ''accountImplementation'', abi_inputs = []\<rparr>,
     \<lparr>abi_name = ''createAccount'', abi_inputs = [''address'', ''uint256'']\<rparr>,
     \<lparr>abi_name = ''getAddress'', abi_inputs = [''address'', ''uint256'']\<rparr>]"

definition deployer_address :: Hex where
  "deployer_address = Hex ''0ba5ed0c6aa8c49038f819e587e2633c4a9f428a''"

text \<open>
  The owner is a \<^verbatim>\<open>LocalAccount\<close>: its address, and its raw-hash \<^verbatim>\<open>sign\<close>, which a
  local account may lack.
\<close>

record 'x LocalAccount =
  owner_address :: Hex
  owner_sign :: "(Hex \<Rightarrow> ('x, Hex) async) option"

record 'x ToSimpleNativeSmartAccountParameters =
  parameters_address :: "Hex option"
  parameters_client :: "'x Client"
  owner :: "'x LocalAccount"
  nonce :: "int option"

text \<open>
  The implementation closes over \<^verbatim>\<open>let address = parameters.address\<close>, which
  \<^verbatim>\<open>getAddress\<close> assigns. The variable is part of the state outside the account.
\<close>

record SimpleClosure =
  address_variable :: "Hex option"

text \<open>
  \<^verbatim>\<open>
  async decodeCalls(data) {
    const result = decodeFunctionData({ abi, data })
    if (result.functionName === 'execute')
      return [{ to: result.args[0], value: result.args[1], data: result.args[2] }]
    if (result.functionName === 'executeBatch')
      return result.args[0].map((target, index) => ({
        to: target,
        value: result.args[1][index],
        data: result.args[2][index],
      }))
    throw new BaseError(`unable to decode calls for "${result.functionName}"`)
  }
  \<close>
  An index beyond the end of a JavaScript array reads \<^verbatim>\<open>undefined\<close>. The type of
  \<^verbatim>\<open>result.args\<close> follows from the ABI and the function's name; arguments of
  another shape are outside that type.
\<close>

definition element :: "'a list \<Rightarrow> nat \<Rightarrow> 'a option" where
  "element xs i = (if i < length xs then Some (xs ! i) else None)"

definition decodeCalls_simple :: "'x Library \<Rightarrow> Hex \<Rightarrow> error + Call list" where
  "decodeCalls_simple lib calldata =
     (case decodeFunctionData lib abi calldata of
        Inl e \<Rightarrow> Inl e
      | Inr result \<Rightarrow>
          if functionName result = ''execute'' then
            (case args result of
               [AbiAddress a0, AbiUint a1, AbiBytes a2] \<Rightarrow>
                 Inr [\<lparr>to = a0, data = Some a2, value = Some a1\<rparr>]
             | _ \<Rightarrow> Inl (TypeError ''arguments outside the type of the ABI''))
          else if functionName result = ''executeBatch'' then
            (case args result of
               [AbiAddressArray a0, AbiUintArray a1, AbiBytesArray a2] \<Rightarrow>
                 Inr (map (\<lambda>(index, target).
                        \<lparr>to = target, data = element a2 index, value = element a1 index\<rparr>)
                      (enumerate 0 a0))
             | _ \<Rightarrow> Inl (TypeError ''arguments outside the type of the ABI''))
          else Inl (BaseError (''unable to decode calls for \"'' @ functionName result @ ''\"'')))"

text \<open>
  \<^verbatim>\<open>
  async encodeCalls(calls) {
    if (calls.length === 1)
      return encodeFunctionData({
        abi,
        functionName: 'execute',
        args: [calls[0].to, calls[0].value ?? 0n, calls[0].data ?? '0x'],
      })
    return encodeFunctionData({
      abi,
      functionName: 'executeBatch',
      args: [
        calls.map((call) => call.to),
        calls.map((call) => call.value ?? 0n),
        calls.map((call) => call.data ?? '0x'),
      ],
    })
  }
  \<close>
\<close>

definition value_or_zero :: "Call \<Rightarrow> int" where
  "value_or_zero call = (case value call of None \<Rightarrow> 0 | Some v \<Rightarrow> v)"

definition data_or_empty :: "Call \<Rightarrow> Hex" where
  "data_or_empty call = (case data call of None \<Rightarrow> Hex [] | Some d \<Rightarrow> d)"

definition encodeCalls_simple :: "'x Library \<Rightarrow> Call list \<Rightarrow> error + Hex" where
  "encodeCalls_simple lib calls =
     (if length calls = 1 then
        encodeFunctionData lib abi ''execute''
          [AbiAddress (to (calls ! 0)), AbiUint (value_or_zero (calls ! 0)),
           AbiBytes (data_or_empty (calls ! 0))]
      else
        encodeFunctionData lib abi ''executeBatch''
          [AbiAddressArray (map to calls), AbiUintArray (map value_or_zero calls),
           AbiBytesArray (map data_or_empty calls)])"

text \<open>
  \<^verbatim>\<open>
  async getAddress() {
    address ??= await readContract(client, {
      ...deployer,
      functionName: 'getAddress',
      args: [ownerAddr, nonce],
    })
    return address
  }
  \<close>
  with \<^verbatim>\<open>const { client, owner, nonce = 0n } = parameters\<close>.
\<close>

definition nonce_or_zero :: "('x, 'z) ToSimpleNativeSmartAccountParameters_scheme \<Rightarrow> int" where
  "nonce_or_zero parameters = (case nonce parameters of None \<Rightarrow> 0 | Some n \<Rightarrow> n)"

definition getAddress_simple ::
  "('z SimpleClosure_scheme) ToSimpleNativeSmartAccountParameters \<Rightarrow>
   ('z SimpleClosure_scheme, Hex) async" where
  "getAddress_simple parameters x =
     (case address_variable x of
        Some a \<Rightarrow> (Inr a, x)
      | None \<Rightarrow>
          (case readContract_address (parameters_client parameters) deployerAbi deployer_address
                  ''getAddress''
                  [AbiAddress (owner_address (owner parameters)), AbiUint (nonce_or_zero parameters)] x of
             (Inl e, x') \<Rightarrow> (Inl e, x')
           | (Inr a, x') \<Rightarrow> (Inr a, x'\<lparr>address_variable := Some a\<rparr>)))"

text \<open>
  \<^verbatim>\<open>
  async getDeployerArgs() {
    const deployerData = encodeFunctionData({
      abi: deployer.abi,
      functionName: 'createAccount',
      args: [ownerAddr, nonce],
    })
    return { deployer: deployer.address, deployerData }
  }
  \<close>
\<close>

definition getDeployerArgs_simple ::
  "'x Library \<Rightarrow> ('x, 'z) ToSimpleNativeSmartAccountParameters_scheme \<Rightarrow> error + DeployerArgs" where
  "getDeployerArgs_simple lib parameters =
     (case encodeFunctionData lib deployerAbi ''createAccount''
             [AbiAddress (owner_address (owner parameters)), AbiUint (nonce_or_zero parameters)] of
        Inl e \<Rightarrow> Inl e
      | Inr d \<Rightarrow> Inr \<lparr>deployer = Some deployer_address, deployerData = Some d\<rparr>)"

text \<open>
  \<^verbatim>\<open>
  export async function sign({ hash, owner }) {
    if (owner.sign) return owner.sign({ hash })
    throw new BaseError('`owner` does not support raw sign.')
  }
  \<close>
\<close>

definition sign_owner :: "Hex \<Rightarrow> 'x LocalAccount \<Rightarrow> ('x, Hex) async" where
  "sign_owner hash own =
     (case owner_sign own of
        Some f \<Rightarrow> f hash
      | None \<Rightarrow> reject (BaseError ''`owner` does not support raw sign.''))"

text \<open>
  \<^verbatim>\<open>
  export function toReplaySafeHash({ address, chainId, hash }) {
    return hashTypedData({
      domain: {
        chainId,
        name: 'Simple Native Smart Wallet',
        verifyingContract: address,
        version: '1',
      },
      types: {
        SimpleNativeSmartWalletMessage: [{ name: 'hash', type: 'bytes32' }],
      },
      primaryType: 'SimpleNativeSmartWalletMessage',
      message: { hash },
    })
  }
  \<close>
\<close>

definition toReplaySafeHash :: "'x Library \<Rightarrow> Hex \<Rightarrow> int \<Rightarrow> Hex \<Rightarrow> error + Hex" where
  "toReplaySafeHash lib a c hash =
     hashTypedData lib
       \<lparr>domain = Some \<lparr>chainId = Some c, name = Some ''Simple Native Smart Wallet'',
                       salt = None, verifyingContract = Some a, version = Some ''1''\<rparr>,
        types = [(''SimpleNativeSmartWalletMessage'', [(''hash'', ''bytes32'')])],
        primaryType = ''SimpleNativeSmartWalletMessage'',
        message = [(''hash'', AbiBytes hash)]\<rparr>"

text \<open>
  \<^verbatim>\<open>
  async sign(parameters) {
    const address = await this.getAddress()
    const hash = toReplaySafeHash({
      address,
      chainId: client.chain!.id,
      hash: parameters.hash,
    })
    const signature = await sign({ hash, owner })
    return signature
  }
  \<close>
  \<^verbatim>\<open>signMessage\<close> has \<^verbatim>\<open>hash: hashMessage(message)\<close> and \<^verbatim>\<open>signTypedData\<close> has
  \<^verbatim>\<open>hash: hashTypedData({ domain, message, primaryType, types })\<close> in that place.
  The object literal reads \<^verbatim>\<open>client.chain!.id\<close> before it computes the hash.
\<close>

definition sign_replaySafe ::
  "('z SimpleClosure_scheme) Library \<Rightarrow>
   ('z SimpleClosure_scheme) ToSimpleNativeSmartAccountParameters \<Rightarrow>
   (error + Hex) \<Rightarrow> ('z SimpleClosure_scheme, Hex) async" where
  "sign_replaySafe lib parameters inner =
     await (getAddress_simple parameters)
       (\<lambda>a. case chain (parameters_client parameters) of
              None \<Rightarrow> reject (TypeError ''Cannot read properties of undefined (reading id)'')
            | Some c \<Rightarrow>
                await (sync inner)
                  (\<lambda>h. await (sync (toReplaySafeHash lib a (chain_id c) h))
                     (\<lambda>hash. sign_owner hash (owner parameters))))"

definition sign_simple ::
  "('z SimpleClosure_scheme) Library \<Rightarrow>
   ('z SimpleClosure_scheme) ToSimpleNativeSmartAccountParameters \<Rightarrow>
   Hex \<Rightarrow> ('z SimpleClosure_scheme, Hex) async" where
  "sign_simple lib parameters hash = sign_replaySafe lib parameters (Inr hash)"

definition signMessage_simple ::
  "('z SimpleClosure_scheme) Library \<Rightarrow>
   ('z SimpleClosure_scheme) ToSimpleNativeSmartAccountParameters \<Rightarrow>
   SignableMessage \<Rightarrow> ('z SimpleClosure_scheme, Hex) async" where
  "signMessage_simple lib parameters m = sign_replaySafe lib parameters (hashMessage lib m)"

definition signTypedData_simple ::
  "('z SimpleClosure_scheme) Library \<Rightarrow>
   ('z SimpleClosure_scheme) ToSimpleNativeSmartAccountParameters \<Rightarrow>
   TypedDataDefinition \<Rightarrow> ('z SimpleClosure_scheme, Hex) async" where
  "signTypedData_simple lib parameters typedData =
     sign_replaySafe lib parameters (hashTypedData lib typedData)"

text \<open>
  \<^verbatim>\<open>
  transaction: {
    async estimateGas(transaction) {
      return {
        verificationGasLimit: BigInt(
          Number(transaction.verificationGasLimit ?? 0n),
        ),
      }
    },
  },
  \<close>
\<close>

definition estimateGas :: "'a TransactionRequest_scheme \<Rightarrow> error + EstimateGasResult" where
  "estimateGas transaction =
     (case BigInt (Number (case verificationGasLimit transaction of None \<Rightarrow> 0 | Some v \<Rightarrow> v)) of
        Inl e \<Rightarrow> Inl e
      | Inr g \<Rightarrow> Inr \<lparr>est_verificationGasLimit = g\<rparr>)"

text \<open>The object handed to the factory, and the account made of it.\<close>

definition simpleImplementation ::
  "('z SimpleClosure_scheme) Library \<Rightarrow>
   ('z SimpleClosure_scheme) ToSimpleNativeSmartAccountParameters \<Rightarrow>
   ('z SimpleClosure_scheme) NativeSmartAccountImplementation" where
  "simpleImplementation lib parameters =
     \<lparr>client = parameters_client parameters,
      getAddress = getAddress_simple parameters,
      decodeCalls = Some (\<lambda>calldata. sync (decodeCalls_simple lib calldata)),
      encodeCalls = (\<lambda>calls. sync (encodeCalls_simple lib calls)),
      getDeployerArgs = sync (getDeployerArgs_simple lib parameters),
      getNonce = None,
      nonceKeyManager = None,
      sign = Some (sign_simple lib parameters),
      signMessage = signMessage_simple lib parameters,
      signTypedData = signTypedData_simple lib parameters,
      transaction_estimateGas = Some (\<lambda>transaction. sync (estimateGas transaction))\<rparr>"

definition toSimpleNativeSmartAccount ::
  "('z SimpleClosure_scheme) Library \<Rightarrow>
   ('z SimpleClosure_scheme) ToSimpleNativeSmartAccountParameters \<Rightarrow>
   'z SimpleClosure_scheme \<Rightarrow>
   (error + ('z SimpleClosure_scheme) NativeSmartAccount) \<times> ('z SimpleClosure_scheme) account_state" where
  "toSimpleNativeSmartAccount lib parameters x =
     toNativeSmartAccount lib (simpleImplementation lib parameters)
       (x\<lparr>address_variable := parameters_address parameters\<rparr>)"

section \<open>The revision that batches calls as tuples\<close>

text \<open>
  The sources hold \<^verbatim>\<open>toSimpleNativeSmartAccount\<close> in a second revision, which differs
  in the account's ABI and in the batch branch of \<^verbatim>\<open>encodeCalls\<close> and
  \<^verbatim>\<open>decodeCalls\<close>: there \<^verbatim>\<open>executeBatch\<close> takes one array of
  \<open>(target, value, data)\<close> tuples. Its function items:
\<close>

definition abi_tuples :: "AbiFunction list" where
  "abi_tuples =
    [\<lparr>abi_name = ''REPLAYABLE_NONCE_KEY'', abi_inputs = []\<rparr>,
     \<lparr>abi_name = ''addOwnerAddress'', abi_inputs = [''address'']\<rparr>,
     \<lparr>abi_name = ''addOwnerPublicKey'', abi_inputs = [''bytes32'', ''bytes32'']\<rparr>,
     \<lparr>abi_name = ''canSkipChainIdValidation'', abi_inputs = [''bytes4'']\<rparr>,
     \<lparr>abi_name = ''domainSeparator'', abi_inputs = []\<rparr>,
     \<lparr>abi_name = ''eip712Domain'', abi_inputs = []\<rparr>,
     \<lparr>abi_name = ''entryPoint'', abi_inputs = []\<rparr>,
     \<lparr>abi_name = ''execute'', abi_inputs = [''address'', ''uint256'', ''bytes'']\<rparr>,
     \<lparr>abi_name = ''executeBatch'', abi_inputs = [''(address,uint256,bytes)[]'']\<rparr>,
     \<lparr>abi_name = ''executeWithoutChainIdValidation'', abi_inputs = [''bytes[]'']\<rparr>,
     \<lparr>abi_name = ''getUserOpHashWithoutChainId'',
      abi_inputs = [''(address,uint256,bytes,bytes,uint256,uint256,uint256,uint256,uint256,bytes,bytes)'']\<rparr>,
     \<lparr>abi_name = ''implementation'', abi_inputs = []\<rparr>,
     \<lparr>abi_name = ''initialize'', abi_inputs = [''bytes[]'']\<rparr>,
     \<lparr>abi_name = ''isOwnerAddress'', abi_inputs = [''address'']\<rparr>,
     \<lparr>abi_name = ''isOwnerBytes'', abi_inputs = [''bytes'']\<rparr>,
     \<lparr>abi_name = ''isOwnerPublicKey'', abi_inputs = [''bytes32'', ''bytes32'']\<rparr>,
     \<lparr>abi_name = ''isValidSignature'', abi_inputs = [''bytes32'', ''bytes'']\<rparr>,
     \<lparr>abi_name = ''nextOwnerIndex'', abi_inputs = []\<rparr>,
     \<lparr>abi_name = ''ownerAtIndex'', abi_inputs = [''uint256'']\<rparr>,
     \<lparr>abi_name = ''ownerCount'', abi_inputs = []\<rparr>,
     \<lparr>abi_name = ''proxiableUUID'', abi_inputs = []\<rparr>,
     \<lparr>abi_name = ''removeLastOwner'', abi_inputs = [''uint256'', ''bytes'']\<rparr>,
     \<lparr>abi_name = ''removeOwnerAtIndex'', abi_inputs = [''uint256'', ''bytes'']\<rparr>,
     \<lparr>abi_name = ''removedOwnersCount'', abi_inputs = []\<rparr>,
     \<lparr>abi_name = ''replaySafeHash'', abi_inputs = [''bytes32'']\<rparr>,
     \<lparr>abi_name = ''upgradeToAndCall'', abi_inputs = [''address'', ''bytes'']\<rparr>,
     \<lparr>abi_name = ''validateUserOp'',
      abi_inputs = [''(address,uint256,bytes,bytes,uint256,uint256,uint256,uint256,uint256,bytes,bytes)'',
                    ''bytes32'', ''uint256'']\<rparr>]"

text \<open>
  \<^verbatim>\<open>
  if (result.functionName === 'executeBatch')
    return result.args[0].map((arg) => ({
      to: arg.target,
      value: arg.value,
      data: arg.data,
    }))
  \<close>
\<close>

definition decodeCalls_tuples :: "'x Library \<Rightarrow> Hex \<Rightarrow> error + Call list" where
  "decodeCalls_tuples lib calldata =
     (case decodeFunctionData lib abi_tuples calldata of
        Inl e \<Rightarrow> Inl e
      | Inr result \<Rightarrow>
          if functionName result = ''execute'' then
            (case args result of
               [AbiAddress a0, AbiUint a1, AbiBytes a2] \<Rightarrow>
                 Inr [\<lparr>to = a0, data = Some a2, value = Some a1\<rparr>]
             | _ \<Rightarrow> Inl (TypeError ''arguments outside the type of the ABI''))
          else if functionName result = ''executeBatch'' then
            (case args result of
               [AbiTupleArray a0] \<Rightarrow>
                 Inr (map (\<lambda>(target, v, d). \<lparr>to = target, data = Some d, value = Some v\<rparr>) a0)
             | _ \<Rightarrow> Inl (TypeError ''arguments outside the type of the ABI''))
          else Inl (BaseError (''unable to decode calls for \"'' @ functionName result @ ''\"'')))"


section \<open>What the claims say of the collaborators\<close>



text \<open>
  The selector of calldata is its first four bytes, \<^verbatim>\<open>slice(data, 0, 4)\<close>: eight
  hexadecimal digits. The decoder finds the function by it: a successful decode names a
  function of the ABI whose selector is the calldata's.
\<close>

definition calldata_selector :: "Hex \<Rightarrow> Hex" where
  "calldata_selector d = (case d of Hex s \<Rightarrow> Hex (take 8 s))"

definition codec_dispatch :: "'x Library \<Rightarrow> AbiFunction list \<Rightarrow> bool" where
  "codec_dispatch lib a =
     (\<forall>d r. decodeFunctionData lib a d = Inr r \<longrightarrow>
        (\<exists>f \<in> set a. abi_name f = functionName r \<and> toFunctionSelector lib f = calldata_selector d))"

text \<open>
  The typed data that C5 names: the domain of the wallet with the chain and the account's
  address, the primary type with its one \<open>bytes32\<close> field, and the hash as the message.
\<close>

abbreviation replaySafeTypedData :: "Hex \<Rightarrow> int \<Rightarrow> Hex \<Rightarrow> TypedDataDefinition" where
  "replaySafeTypedData accountAddress clientChainId hash \<equiv>
     \<lparr>domain = Some \<lparr>chainId = Some clientChainId, name = Some ''Simple Native Smart Wallet'',
                     salt = None, verifyingContract = Some accountAddress, version = Some ''1''\<rparr>,
      types = [(''SimpleNativeSmartWalletMessage'', [(''hash'', ''bytes32'')])],
      primaryType = ''SimpleNativeSmartWalletMessage'',
      message = [(''hash'', AbiBytes hash)]\<rparr>"



text \<open>
  An integer that is a double: its magnitude is \<open>q * 2 ^ e\<close> with a significand \<open>q\<close>
  below \<open>2^53\<close>, and it is below \<open>2^1024\<close>. \<open>significand\<close> says the first of a
  natural number.
\<close>

definition significand :: "nat \<Rightarrow> bool" where
  "significand x = (\<exists>q e. x = q * 2 ^ e \<and> q < 2 ^ 53)"

definition double_integer :: "int \<Rightarrow> bool" where
  "double_integer x =
     ((\<exists>q e. \<bar>x\<bar> = q * 2 ^ e \<and> 0 \<le> q \<and> q < 2 ^ 53) \<and> \<bar>x\<bar> < 2 ^ 1024)"

section \<open>A test double of the collaborators\<close>

text \<open>
  The theorems below hold for every client, owner, nonce key manager and library. To run
  them on an input, this section fixes one of each, the way a unit test does: a chain
  that answers from a small record, an owner whose signature is a tag before the hash,
  and a library whose codec knows the calldata of the test's calls.
\<close>

record MockWorld = SimpleClosure +
  world_code :: "Hex option"
  world_clock :: int
  world_consumed :: nat

definition digits :: "Hex \<Rightarrow> string" where
  "digits h = (case h of Hex s \<Rightarrow> s)"

definition mock_client :: "MockWorld Client" where
  "mock_client =
     \<lparr>chain = Some \<lparr>chain_id = 11171168\<rparr>,
      getCode = (\<lambda>a x. (Inr (world_code x), x)),
      readContract_uint256 =
        (\<lambda>a c fn as x. (case as of [who, AbiUint k] \<Rightarrow> Inr (k + 5) | _ \<Rightarrow> Inr 5, x)),
      readContract_address =
        (\<lambda>a c fn as x. (Inr (Hex ''00000000000000000000000000000000000000aa''), x))\<rparr>"

definition mock_owner :: "MockWorld LocalAccount" where
  "mock_owner =
     \<lparr>owner_address = Hex ''f39fd6e51aad88f6f4ce6ab8827279cfffb92266'',
      owner_sign = Some (\<lambda>hash x. (Inr (Hex (''51'' @ digits hash)), x))\<rparr>"

definition mock_parameters :: "MockWorld ToSimpleNativeSmartAccountParameters" where
  "mock_parameters =
     \<lparr>parameters_address = None, parameters_client = mock_client, owner = mock_owner,
      nonce = None\<rparr>"

text \<open>
  Two addresses in checksum case, and the first of them in lower case, as the owner's
  address is written. The test double's \<open>checksumAddress\<close> knows the checksum case
  of that one lower-case address; the test's bytes are lower-case digits already.
\<close>

definition mock_to :: Hex where
  "mock_to = Hex ''f39Fd6e51aad88F6F4ce6aB8827279cffFb92266''"

definition mock_to2 :: Hex where
  "mock_to2 = Hex ''70997970C51812dc3A010C7d01b50e0d17dc79C8''"

definition mock_lowercase :: Hex where
  "mock_lowercase = Hex ''f39fd6e51aad88f6f4ce6ab8827279cfffb92266''"

definition mock_checksum :: "Hex \<Rightarrow> Hex" where
  "mock_checksum a = (if a = mock_lowercase then mock_to else a)"

definition mock_encode :: "AbiFunction list \<Rightarrow> string \<Rightarrow> abi_value list \<Rightarrow> error + Hex" where
  "mock_encode a fn as =
     (if a = abi \<and> fn = ''execute'' \<and>
         as = [AbiAddress mock_to, AbiUint 0, AbiBytes (Hex ''1234'')]
      then Inr (Hex ''b61d27f601'')
      else if a = abi \<and> fn = ''execute'' \<and>
         as = [AbiAddress mock_lowercase, AbiUint 0, AbiBytes (Hex [])]
      then Inr (Hex ''b61d27f607'')
      else if a = abi \<and> fn = ''executeBatch'' \<and>
         as = [AbiAddressArray [mock_to, mock_to2], AbiUintArray [0, 100],
               AbiBytesArray [Hex [], Hex []]]
      then Inr (Hex ''47e1da2a02'')
      else if a = abi_tuples \<and> fn = ''executeBatch'' \<and>
         as = [AbiTupleArray [(mock_to, 0, Hex []), (mock_to2, 100, Hex [])]]
      then Inr (Hex ''34fcd5be05'')
      else if a = deployerAbi \<and> fn = ''createAccount'' \<and>
         as = [AbiAddress (Hex ''f39fd6e51aad88f6f4ce6ab8827279cfffb92266''), AbiUint 0]
      then Inr (Hex ''5fbfb9cf03'')
      else Inl (ExternalError ''AbiEncodingError''))"

definition mock_decode :: "AbiFunction list \<Rightarrow> Hex \<Rightarrow> error + FunctionData" where
  "mock_decode a d =
     (if a = abi \<and> d = Hex ''b61d27f601''
      then Inr \<lparr>functionName = ''execute'',
                args = [AbiAddress mock_to, AbiUint 0, AbiBytes (Hex ''1234'')]\<rparr>
      else if a = abi \<and> d = Hex ''b61d27f607''
      then Inr \<lparr>functionName = ''execute'',
                args = [AbiAddress mock_to, AbiUint 0, AbiBytes (Hex [])]\<rparr>
      else if a = abi \<and> d = Hex ''47e1da2a02''
      then Inr \<lparr>functionName = ''executeBatch'',
                args = [AbiAddressArray [mock_to, mock_to2], AbiUintArray [0, 100],
                        AbiBytesArray [Hex [], Hex []]]\<rparr>
      else if a = abi \<and> d = Hex ''c4d66de804''
      then Inr \<lparr>functionName = ''initialize'', args = [AbiAddress mock_to]\<rparr>
      else if a = abi_tuples \<and> d = Hex ''34fcd5be05''
      then Inr \<lparr>functionName = ''executeBatch'',
                args = [AbiTupleArray [(mock_to, 0, Hex []), (mock_to2, 100, Hex [])]]\<rparr>
      else if a = abi_tuples \<and> d = Hex ''1626ba7e06''
      then Inr \<lparr>functionName = ''isValidSignature'',
                args = [AbiBytes (Hex ''e191''), AbiBytes (Hex ''51'')]\<rparr>
      else Inl (ExternalError ''AbiFunctionSignatureNotFoundError''))"

definition mock_selector :: "AbiFunction \<Rightarrow> Hex" where
  "mock_selector f =
     (if abi_name f = ''execute'' then Hex ''b61d27f6''
      else if abi_name f = ''executeBatch'' then
        (if abi_inputs f = [''(address,uint256,bytes)[]''] then Hex ''34fcd5be'' else Hex ''47e1da2a'')
      else if abi_name f = ''initialize'' then Hex ''c4d66de8''
      else if abi_name f = ''isValidSignature'' then Hex ''1626ba7e''
      else Hex ''00000000'')"

definition mock_createNonceManager :: "MockWorld NonceManagerSource \<Rightarrow> MockWorld NonceManager" where
  "mock_createNonceManager source =
     \<lparr>consume = (\<lambda>a c cl.
        await (source_get source a c cl)
          (\<lambda>n. await (source_set source a c cl n)
             (\<lambda>u x. (Inr n, x\<lparr>world_consumed := Suc (world_consumed x)\<rparr>))))\<rparr>"

definition mock_library :: "MockWorld Library" where
  "mock_library =
     \<lparr>serializeErc6492Signature =
        (\<lambda>a d s. Inr (Hex (digits a @ digits d @ digits s @ ''6492649264926492''))),
      hashTypedData =
        (\<lambda>typedData. case message typedData of
           [(field, AbiBytes h)] \<Rightarrow>
             Inr (Hex (''e712'' @
               (case domain typedData of
                  None \<Rightarrow> []
                | Some d \<Rightarrow> (case verifyingContract d of None \<Rightarrow> [] | Some a \<Rightarrow> digits a)) @
               digits h))
         | _ \<Rightarrow> Inr (Hex ''e712'')),
      hashMessage = (\<lambda>m. Inr (Hex ''e191'')),
      encodeFunctionData = mock_encode,
      decodeFunctionData = mock_decode,
      toFunctionSelector = mock_selector,
      checksumAddress = mock_checksum,
      decodedBytes = (\<lambda>b. b),
      nonceManagerPredeployAddress = Hex ''4e59b44847b379578588920ca78fbf26c0b4956c'',
      createNonceManager = mock_createNonceManager,
      Date_now = (\<lambda>x. (Inr (Integer (world_clock x)), x))\<rparr>"

definition mock_world :: MockWorld where
  "mock_world =
     \<lparr>address_variable = None, world_code = None, world_clock = 1700000000000,
      world_consumed = 0\<rparr>"

text \<open>The account the factory makes of these, and the state it leaves.\<close>

definition mock_account :: "MockWorld NativeSmartAccount" where
  "mock_account =
     \<lparr>implementation = simpleImplementation mock_library mock_parameters,
      account_nonceKeyManager = defaultNonceKeyManager mock_library,
      address = Hex ''00000000000000000000000000000000000000aa''\<rparr>"

definition mock_state :: "MockWorld account_state" where
  "mock_state =
     \<lparr>deployed = False,
      external = mock_world\<lparr>address_variable := Some (Hex ''00000000000000000000000000000000000000aa'')\<rparr>\<rparr>"

section \<open>The gas hook\<close>

lemma bitLength_zero: "bitLength 0 = 0"
  by (simp add: bitLength.simps)

lemma bitLength_upper: "m < 2 ^ bitLength m"
proof (induction m rule: bitLength.induct)
  case (1 n)
  show ?case
  proof (cases "n = 0")
    case True
    then show ?thesis by (simp add: bitLength_zero)
  next
    case False
    from "1.IH" [OF False] have "n div 2 < 2 ^ bitLength (n div 2)" .
    then have "n < 2 * 2 ^ bitLength (n div 2)"
      by linarith
    then show ?thesis
      using False by (subst bitLength.simps) simp
  qed
qed

lemma bitLength_lower: "m \<noteq> 0 \<Longrightarrow> 2 ^ (bitLength m - 1) \<le> m"
proof (induction m rule: bitLength.induct)
  case (1 n)
  show ?case
  proof (cases "n div 2 = 0")
    case True
    then have "bitLength n = Suc 0"
      using "1.prems" by (subst bitLength.simps) (simp add: bitLength_zero)
    then show ?thesis
      using "1.prems" by simp
  next
    case False
    from "1.IH" [OF "1.prems" False] have h: "2 ^ (bitLength (n div 2) - 1) \<le> n div 2" .
    have b: "bitLength n = Suc (bitLength (n div 2))"
      using "1.prems" by (subst bitLength.simps) simp
    have p: "bitLength (n div 2) \<noteq> 0"
      using False by (subst bitLength.simps) simp
    then have "(2::nat) ^ bitLength (n div 2) = 2 * 2 ^ (bitLength (n div 2) - 1)"
      by (cases "bitLength (n div 2)") simp_all
    with h have "2 ^ bitLength (n div 2) \<le> 2 * (n div 2)"
      by simp
    also have "\<dots> \<le> n"
      by simp
    finally show ?thesis
      using b by simp
  qed
qed

text \<open>When \<open>roundToDouble\<close> drops digits, the quotient it keeps has exactly 53 of them.\<close>

lemma quotient_bounds:
  assumes "0 < bitLength m - 53"
  shows "2 ^ 52 \<le> m div 2 ^ (bitLength m - 53)" and "m div 2 ^ (bitLength m - 53) < 2 ^ 53"
proof -
  let ?e = "bitLength m - 53"
  have n: "bitLength m = ?e + 53"
    using assms by simp
  have m0: "m \<noteq> 0"
  proof
    assume "m = 0"
    then have "bitLength m = 0"
      by (simp add: bitLength_zero)
    with assms show False
      by simp
  qed
  have "bitLength m - 1 = 52 + ?e"
    using n by simp
  then have "(2::nat) ^ (bitLength m - 1) = 2 ^ 52 * 2 ^ ?e"
    by (simp only: power_add)
  with bitLength_lower [OF m0] have "2 ^ 52 * 2 ^ ?e \<le> m"
    by (simp only:)
  then show "2 ^ 52 \<le> m div 2 ^ ?e"
    by (simp add: less_eq_div_iff_mult_less_eq)
  have "m < 2 ^ (?e + 53)"
    using bitLength_upper [of m] n by simp
  then have "m < 2 ^ 53 * 2 ^ ?e"
    by (simp add: power_add mult.commute)
  then show "m div 2 ^ ?e < 2 ^ 53"
    by (simp add: less_mult_imp_div_less)
qed


lemma significand_gap:
  assumes "2 ^ 52 \<le> q" and "significand x"
  shows "x \<le> q * 2 ^ e \<or> (q + 1) * 2 ^ e \<le> x"
proof -
  from assms(2) obtain a b where x: "x = a * 2 ^ b" and a: "a < 2 ^ 53"
    unfolding significand_def by blast
  show ?thesis
  proof (cases "e \<le> b")
    case True
    then have "b = (b - e) + e"
      by simp
    then have "(2::nat) ^ b = 2 ^ (b - e) * 2 ^ e"
      by (metis power_add)
    then have k: "x = (a * 2 ^ (b - e)) * 2 ^ e"
      using x by (simp add: mult.assoc)
    show ?thesis
    proof (cases "a * 2 ^ (b - e) \<le> q")
      case True
      then have "(a * 2 ^ (b - e)) * 2 ^ e \<le> q * 2 ^ e"
        by (rule mult_le_mono1)
      with k show ?thesis
        by simp
    next
      case False
      then have "q + 1 \<le> a * 2 ^ (b - e)"
        by simp
      then have "(q + 1) * 2 ^ e \<le> (a * 2 ^ (b - e)) * 2 ^ e"
        by (rule mult_le_mono1)
      with k show ?thesis
        by simp
    qed
  next
    case False
    then have "e = (e - Suc b) + Suc b"
      by simp
    then have "(2::nat) ^ e = 2 ^ (e - Suc b) * 2 ^ Suc b"
      by (metis power_add)
    moreover have "(1::nat) \<le> 2 ^ (e - Suc b)"
      by simp
    ultimately have "(2::nat) ^ Suc b \<le> 2 ^ e"
      by (metis mult_le_mono1 nat_mult_1)
    then have le: "2 * 2 ^ b \<le> (2::nat) ^ e"
      by simp
    have "a * 2 ^ b \<le> 2 ^ 53 * 2 ^ b"
      using a by (simp add: mult_le_mono1)
    also have "\<dots> = 2 ^ 52 * (2 * 2 ^ b)"
      by simp
    also have "\<dots> \<le> 2 ^ 52 * 2 ^ e"
      using le by (rule mult_le_mono2)
    also have "\<dots> \<le> q * 2 ^ e"
      using assms(1) by (rule mult_le_mono1)
    finally show ?thesis
      using x by simp
  qed
qed

text \<open>What \<open>roundToDouble\<close> returns, with the parts of its argument named.\<close>

lemma roundToDouble_parts:
  assumes "e = bitLength m - 53" and "A = (m div 2 ^ e) * 2 ^ e" and "r = m mod 2 ^ e"
    and "P = (2::nat) ^ e"
  shows "m = A + r" and "r < P"
    and "roundToDouble m = (if P < 2 * r \<or> (2 * r = P \<and> odd (m div 2 ^ e)) then A + P else A)"
proof -
  show "m = A + r"
    unfolding assms by (simp only: div_mult_mod_eq)
  show "r < P"
    using assms by simp
  show "roundToDouble m = (if P < 2 * r \<or> (2 * r = P \<and> odd (m div 2 ^ e)) then A + P else A)"
    using assms by (simp add: roundToDouble_def Let_def)
qed

lemma roundToDouble_short: "bitLength m - 53 = 0 \<Longrightarrow> roundToDouble m = m"
  by (simp add: roundToDouble_def)

lemma roundToDouble_nearest:
  assumes "significand x"
  shows "\<bar>int (roundToDouble m) - int m\<bar> \<le> \<bar>int x - int m\<bar>"
proof (cases "bitLength m - 53 = 0")
  case True
  then show ?thesis
    by (simp add: roundToDouble_short)
next
  case False
  define e where "e = bitLength m - 53"
  define q where "q = m div 2 ^ e"
  define A where "A = q * 2 ^ e"
  define r where "r = m mod 2 ^ e"
  define P where "P = (2::nat) ^ e"
  have parts: "m = A + r" "r < P"
    "roundToDouble m = (if P < 2 * r \<or> (2 * r = P \<and> odd q) then A + P else A)"
    using roundToDouble_parts [of e m A r P] by (simp_all add: e_def q_def A_def r_def P_def)
  have "2 ^ 52 \<le> q"
    using quotient_bounds(1) [of m] False by (simp add: q_def e_def)
  from significand_gap [OF this assms, of e]
  have gap: "x \<le> A \<or> A + P \<le> x"
    by (simp add: A_def P_def add.commute)
  show ?thesis
    using gap parts by (auto split: if_splits)
qed

lemma roundToDouble_ties:
  assumes "significand x" and "x \<noteq> roundToDouble m"
    and "\<bar>int x - int m\<bar> = \<bar>int (roundToDouble m) - int m\<bar>"
  shows "\<exists>k e. roundToDouble m = 2 * k * 2 ^ e \<and> \<bar>int x - int (roundToDouble m)\<bar> = 2 ^ e"
proof (cases "bitLength m - 53 = 0")
  case True
  then have "roundToDouble m = m"
    by (rule roundToDouble_short)
  with assms(2,3) show ?thesis
    by simp
next
  case False
  define e where "e = bitLength m - 53"
  define q where "q = m div 2 ^ e"
  define A where "A = q * 2 ^ e"
  define r where "r = m mod 2 ^ e"
  define P where "P = (2::nat) ^ e"
  have parts: "m = A + r" "r < P"
    "roundToDouble m = (if P < 2 * r \<or> (2 * r = P \<and> odd q) then A + P else A)"
    using roundToDouble_parts [of e m A r P] by (simp_all add: e_def q_def A_def r_def P_def)
  have "2 ^ 52 \<le> q"
    using quotient_bounds(1) [of m] False by (simp add: q_def e_def)
  from significand_gap [OF this assms(1), of e]
  have gap: "x \<le> A \<or> A + P \<le> x"
    by (simp add: A_def P_def add.commute)
  have tie: "2 * r = P" and other: "\<bar>int x - int (roundToDouble m)\<bar> = int P"
    and up: "odd q \<longrightarrow> roundToDouble m = A + P" and down: "even q \<longrightarrow> roundToDouble m = A"
    using gap parts assms(2,3) by (auto split: if_splits)
  have d: "\<bar>int x - int (roundToDouble m)\<bar> = 2 ^ e"
    using other by (simp add: P_def)
  show ?thesis
  proof (cases "odd q")
    case True
    then obtain k where "q + 1 = 2 * k"
      by (metis Suc_eq_plus1 even_Suc evenE)
    then have "A + P = 2 * k * 2 ^ e"
      by (metis A_def P_def add.commute mult_Suc Suc_eq_plus1)
    with True up have "roundToDouble m = 2 * k * 2 ^ e"
      by simp
    with d show ?thesis
      by blast
  next
    case False
    then obtain k where "q = 2 * k"
      by (auto elim: evenE)
    then have "A = 2 * k * 2 ^ e"
      by (simp add: A_def)
    with False down have "roundToDouble m = 2 * k * 2 ^ e"
      by simp
    with d show ?thesis
      by blast
  qed
qed

lemma roundToDouble_significand: "significand (roundToDouble m)"
proof (cases "bitLength m - 53 = 0")
  case True
  then have "roundToDouble m = m"
    by (rule roundToDouble_short)
  moreover have "bitLength m \<le> 53"
    using True by simp
  then have "(2::nat) ^ bitLength m \<le> 2 ^ 53"
    by (rule power_increasing) simp
  then have "m < 2 ^ 53"
    using bitLength_upper [of m] by (rule less_le_trans [rotated])
  then have "significand m"
    unfolding significand_def by (intro exI [of _ m] exI [of _ 0]) simp
  ultimately show ?thesis
    by simp
next
  case False
  define e where "e = bitLength m - 53"
  define q where "q = m div 2 ^ e"
  have b: "q < 2 ^ 53"
    using quotient_bounds(2) [of m] False by (simp add: q_def e_def)
  have v: "roundToDouble m = q * 2 ^ e \<or> roundToDouble m = (q + 1) * 2 ^ e"
    by (simp add: roundToDouble_def Let_def q_def e_def)
  show ?thesis
  proof (cases "roundToDouble m = q * 2 ^ e")
    case True
    with b show ?thesis
      unfolding significand_def by blast
  next
    case False
    with v have g: "roundToDouble m = (q + 1) * 2 ^ e"
      by simp
    show ?thesis
    proof (cases "q + 1 < 2 ^ 53")
      case True
      with g show ?thesis
        unfolding significand_def by blast
    next
      case False
      with b have "q + 1 = 2 ^ 52 * 2"
        by simp
      then have "roundToDouble m = 2 ^ 52 * 2 ^ Suc e"
        using g by (simp only: power_Suc mult.assoc)
      moreover have "(2::nat) ^ 52 < 2 ^ 53"
        by simp
      ultimately show ?thesis
        unfolding significand_def by blast
    qed
  qed
qed

lemma double_integer_significand:
  assumes "double_integer x"
  shows "significand (nat \<bar>x\<bar>)"
proof -
  from assms obtain q e where x: "\<bar>x\<bar> = q * 2 ^ e" and q: "0 \<le> q" "q < 2 ^ 53"
    unfolding double_integer_def by blast
  have "nat \<bar>x\<bar> = nat q * 2 ^ e"
    using x q(1) by (simp add: nat_mult_distrib nat_power_eq)
  moreover have "nat q < 2 ^ 53"
    using q by (simp add: nat_less_iff)
  ultimately show ?thesis
    unfolding significand_def by blast
qed

lemma significand_double_integer:
  assumes "significand n" and "int n < 2 ^ 1024"
  shows "double_integer (int n)"
proof -
  from assms(1) obtain q e where n: "n = q * 2 ^ e" and q: "q < 2 ^ 53"
    unfolding significand_def by blast
  have "\<bar>int n\<bar> = int q * 2 ^ e"
    using n by simp
  moreover have "0 \<le> int q" and "int q < 2 ^ 53"
    using q by simp_all
  ultimately show ?thesis
    unfolding double_integer_def using assms(2) by (intro conjI exI [of _ "int q"] exI [of _ e]) simp_all
qed

lemma significand_zero: "significand 0"
  unfolding significand_def by (intro exI [of _ 0]) simp

lemma roundToDouble_le_double: "roundToDouble m \<le> 2 * m"
  using roundToDouble_nearest [OF significand_zero, of m] by simp

lemma uint256_below_double_range: "m < 2 ^ 256 \<Longrightarrow> roundToDouble m < 2 ^ 1024"
proof -
  assume "m < 2 ^ 256"
  then have "2 * m < 2 * 2 ^ 256"
    by simp
  also have "(2::nat) * 2 ^ 256 = 2 ^ 257"
    by simp
  also have "(2::nat) ^ 257 \<le> 2 ^ 1024"
    by (rule power_increasing) simp_all
  finally have "2 * m < 2 ^ 1024" .
  with roundToDouble_le_double [of m] show ?thesis
    by (rule le_less_trans)
qed

lemma Number_uint256:
  assumes "0 \<le> v" and "v < 2 ^ 256"
  shows "Number v = Integer (int (roundToDouble (nat v)))"
proof -
  have "nat v < 2 ^ 256"
    using assms by (simp add: nat_less_iff)
  then have "\<not> 2 ^ 1024 \<le> roundToDouble (nat v)"
    using uint256_below_double_range [of "nat v"] by simp
  moreover have "nat \<bar>v\<bar> = nat v"
    using assms(1) by simp
  ultimately show ?thesis
    unfolding Number_def Let_def using assms(1) by simp
qed

lemma rounded_properties:
  assumes "0 \<le> v" and "v < 2 ^ 256" and "g = int (roundToDouble (nat v))"
  shows "double_integer g"
    and "\<forall>x. double_integer x \<longrightarrow> \<bar>g - v\<bar> \<le> \<bar>x - v\<bar>"
    and "\<forall>x. double_integer x \<longrightarrow> x \<noteq> g \<longrightarrow> \<bar>x - v\<bar> = \<bar>g - v\<bar> \<longrightarrow>
           (\<exists>k e. g = 2 * k * 2 ^ e \<and> \<bar>x - g\<bar> = 2 ^ e)"
proof -
  let ?m = "nat v"
  have v: "int ?m = v"
    using assms(1) by simp
  have "?m < 2 ^ 256"
    using assms by (simp add: nat_less_iff)
  then have "roundToDouble ?m < 2 ^ 1024"
    by (rule uint256_below_double_range)
  then have "int (roundToDouble ?m) < 2 ^ 1024"
    by (metis of_nat_less_iff of_nat_numeral of_nat_power)
  with roundToDouble_significand [of ?m] show "double_integer g"
    unfolding assms(3) by (rule significand_double_integer)
  have near0: "\<bar>g - v\<bar> \<le> v"
    using roundToDouble_nearest [OF significand_zero, of ?m] v assms(3) by simp
  have near: "\<bar>g - v\<bar> \<le> \<bar>x - v\<bar>" if "double_integer x" for x
  proof (cases "0 \<le> x")
    case True
    from roundToDouble_nearest [OF double_integer_significand [OF that], of ?m]
    show ?thesis
      using True v assms(3) by simp
  next
    case False
    then show ?thesis
      using near0 assms(1) by linarith
  qed
  then show "\<forall>x. double_integer x \<longrightarrow> \<bar>g - v\<bar> \<le> \<bar>x - v\<bar>"
    by blast
  have tie: "\<exists>k e. g = 2 * k * 2 ^ e \<and> \<bar>x - g\<bar> = 2 ^ e"
    if dx: "double_integer x" and ne: "x \<noteq> g" and eq: "\<bar>x - v\<bar> = \<bar>g - v\<bar>" for x
  proof (cases "0 \<le> x")
    case True
    have "nat \<bar>x\<bar> \<noteq> roundToDouble ?m"
      using ne True assms(3) by auto
    moreover have "\<bar>int (nat \<bar>x\<bar>) - int ?m\<bar> = \<bar>int (roundToDouble ?m) - int ?m\<bar>"
      using eq True v assms(3) by simp
    ultimately obtain k e where k: "roundToDouble ?m = 2 * k * 2 ^ e"
        and d: "\<bar>int (nat \<bar>x\<bar>) - int (roundToDouble ?m)\<bar> = 2 ^ e"
      using roundToDouble_ties [OF double_integer_significand [OF dx], of ?m] by blast
    have "g = 2 * int k * 2 ^ e"
      using k assms(3) by simp
    moreover have "\<bar>x - g\<bar> = 2 ^ e"
      using d True assms(3) by simp
    ultimately show ?thesis
      by blast
  next
    case False
    then have "False"
      using near0 eq assms(1) by linarith
    then show ?thesis ..
  qed
  then show "\<forall>x. double_integer x \<longrightarrow> x \<noteq> g \<longrightarrow> \<bar>x - v\<bar> = \<bar>g - v\<bar> \<longrightarrow>
      (\<exists>k e. g = 2 * k * 2 ^ e \<and> \<bar>x - g\<bar> = 2 ^ e)"
    by blast
qed

lemma safe_integer_double:
  assumes "0 \<le> v" and "v \<le> 2 ^ 53"
  shows "double_integer v"
proof -
  have "(2::int) ^ 53 < 2 ^ 1024"
    by (rule power_strict_increasing) simp_all
  with assms have b: "\<bar>v\<bar> < 2 ^ 1024"
    by linarith
  show ?thesis
  proof (cases "v = 2 ^ 53")
    case True
    then have "\<bar>v\<bar> = 2 ^ 52 * 2 ^ 1 \<and> (0::int) \<le> 2 ^ 52 \<and> (2::int) ^ 52 < 2 ^ 53"
      by simp
    with b show ?thesis
      unfolding double_integer_def by blast
  next
    case False
    with assms have "\<bar>v\<bar> = v * 2 ^ 0 \<and> 0 \<le> v \<and> v < 2 ^ 53"
      by simp
    with b show ?thesis
      unfolding double_integer_def by blast
  qed
qed

lemma bitLength_power: "bitLength (2 ^ k) = Suc k"
proof (induction k)
  case 0
  show ?case by (simp add: bitLength.simps [of "Suc 0"] bitLength_zero)
next
  case (Suc k)
  then show ?case by (subst bitLength.simps) simp
qed

lemma bitLength_power_succ: "bitLength (2 ^ Suc k + 1) = Suc (Suc k)"
proof -
  have "((2::nat) ^ Suc k + 1) div 2 = 2 ^ k"
    by simp
  then have "bitLength (2 ^ Suc k + 1) = Suc (bitLength (2 ^ k))"
    by (subst bitLength.simps) simp
  then show ?thesis
    by (simp add: bitLength_power)
qed

lemma bitLength_54: "bitLength (2 ^ 53 + 1) = 54"
  using bitLength_power_succ [of 52] by simp

lemma roundToDouble_odd: "roundToDouble (2 ^ 53 + 1) = 2 ^ 53"
proof -
  have "bitLength (2 ^ 53 + 1) - 53 = Suc 0"
    using bitLength_54 by simp
  then show ?thesis
    by (simp add: roundToDouble_def)
qed

lemma Number_odd: "Number (2 ^ 53 + 1) = Integer (2 ^ 53)"
proof -
  have n: "nat \<bar>2 ^ 53 + 1 :: int\<bar> = 2 ^ 53 + 1"
    by simp
  have "(2::nat) ^ 53 < 2 ^ 1024"
    by (rule power_strict_increasing) simp_all
  then have b: "\<not> 2 ^ 1024 \<le> (2::nat) ^ 53"
    by simp
  show ?thesis
    unfolding Number_def n roundToDouble_odd Let_def using b by simp
qed

text \<open>
  C8, as stated: the hook returns the request's \<open>verificationGasLimit\<close> exactly, for every
  unsigned 256-bit value. It does not: \<open>2^53 + 1\<close> is below \<open>2^256\<close>, and the hook
  returns \<open>2^53\<close> for it, the nearest double.
\<close>

theorem estimateGas_exact_counterexample:
  "(0::int) \<le> 2 ^ 53 + 1 \<and> (2::int) ^ 53 + 1 < 2 ^ 256 \<and>
   estimateGas \<lparr>verificationGasLimit = Some (2 ^ 53 + 1)\<rparr> = Inr \<lparr>est_verificationGasLimit = 2 ^ 53\<rparr> \<and>
   estimateGas \<lparr>verificationGasLimit = Some (2 ^ 53 + 1)\<rparr> \<noteq> Inr \<lparr>est_verificationGasLimit = 2 ^ 53 + 1\<rparr>"
proof -
  have e: "estimateGas \<lparr>verificationGasLimit = Some (2 ^ 53 + 1)\<rparr> = Inr \<lparr>est_verificationGasLimit = 2 ^ 53\<rparr>"
    using Number_odd by (simp add: estimateGas_def BigInt_def)
  have l: "(2::int) ^ 53 + 1 < 2 ^ 256"
    by simp
  show ?thesis
    unfolding e using l by simp
qed

text \<open>
  C8, amended: the hook computes no estimate of its own. It returns \<open>0\<close> when the
  request has no \<open>verificationGasLimit\<close>. For a value \<open>v\<close> of the unsigned 256-bit
  range it returns the double nearest to \<open>v\<close>: a double, no farther from \<open>v\<close> than
  any other double, and where two doubles are equally near, the one that is an even
  multiple of their distance (the even significand). So it returns \<open>v\<close> itself whenever
  \<open>v\<close> is a double, and that is every \<open>v\<close> up to \<open>2^53\<close>.
\<close>

theorem estimateGas_passthrough:
  assumes "\<forall>v. verificationGasLimit transaction = Some v \<longrightarrow> 0 \<le> v \<and> v < 2 ^ 256"
  shows "\<exists>g. estimateGas transaction = Inr \<lparr>est_verificationGasLimit = g\<rparr> \<and>
           (verificationGasLimit transaction = None \<longrightarrow> g = 0) \<and>
           (\<forall>v. verificationGasLimit transaction = Some v \<longrightarrow>
              double_integer g \<and>
              (\<forall>x. double_integer x \<longrightarrow> \<bar>g - v\<bar> \<le> \<bar>x - v\<bar>) \<and>
              (\<forall>x. double_integer x \<longrightarrow> x \<noteq> g \<longrightarrow> \<bar>x - v\<bar> = \<bar>g - v\<bar> \<longrightarrow>
                 (\<exists>k e. g = 2 * k * 2 ^ e \<and> \<bar>x - g\<bar> = 2 ^ e)) \<and>
              (double_integer v \<longrightarrow> g = v) \<and>
              (v \<le> 2 ^ 53 \<longrightarrow> g = v))"
proof (cases "verificationGasLimit transaction")
  case None
  have "Number 0 = Integer (int (roundToDouble (nat 0)))"
    by (rule Number_uint256) simp_all
  moreover have "roundToDouble 0 = 0"
    by (rule roundToDouble_short) (simp add: bitLength_zero)
  ultimately have "estimateGas transaction = Inr \<lparr>est_verificationGasLimit = 0\<rparr>"
    using None by (simp add: estimateGas_def BigInt_def)
  with None show ?thesis
    by simp
next
  case (Some v)
  with assms have r: "0 \<le> v" "v < 2 ^ 256"
    by simp_all
  define g where "g = int (roundToDouble (nat v))"
  have "Number v = Integer g"
    unfolding g_def using r by (rule Number_uint256)
  then have e: "estimateGas transaction = Inr \<lparr>est_verificationGasLimit = g\<rparr>"
    using Some by (simp add: estimateGas_def BigInt_def)
  note p = rounded_properties [OF r g_def]
  have exact: "g = v" if "double_integer v"
    using p(2) that by fastforce
  have safe: "g = v" if "v \<le> 2 ^ 53"
    using exact safe_integer_double [OF r(1) that] by simp
  show ?thesis
    using e Some p exact safe by auto
qed

lemma double_integer_54: "double_integer (2 ^ 54)"
proof -
  have "\<bar>2 ^ 54 :: int\<bar> = 2 ^ 52 * 2 ^ 2 \<and> (0::int) \<le> 2 ^ 52 \<and> (2::int) ^ 52 < 2 ^ 53"
    by simp
  moreover have "(2::int) ^ 54 < 2 ^ 1024"
    by (rule power_strict_increasing) simp_all
  then have "\<bar>2 ^ 54 :: int\<bar> < 2 ^ 1024"
    by simp
  ultimately show ?thesis
    unfolding double_integer_def by blast
qed

lemma double_integer_ties:
  "double_integer (2 ^ 53 + 2)" "double_integer (2 ^ 53 + 4)" "\<not> double_integer (2 ^ 53 + 3)"
proof -
  have lt: "(2::int) ^ 54 < 2 ^ 1024"
    by (rule power_strict_increasing) simp_all
  have "\<bar>2 ^ 53 + 2 :: int\<bar> = (2 ^ 52 + 1) * 2 ^ 1 \<and> (0::int) \<le> 2 ^ 52 + 1 \<and> (2::int) ^ 52 + 1 < 2 ^ 53"
    by simp
  moreover have "\<bar>2 ^ 53 + 2 :: int\<bar> < 2 ^ 54"
    by simp
  then have "\<bar>2 ^ 53 + 2 :: int\<bar> < 2 ^ 1024"
    using lt by (rule less_trans)
  ultimately show "double_integer (2 ^ 53 + 2)"
    unfolding double_integer_def by blast
  have "\<bar>2 ^ 53 + 4 :: int\<bar> = (2 ^ 51 + 1) * 2 ^ 2 \<and> (0::int) \<le> 2 ^ 51 + 1 \<and> (2::int) ^ 51 + 1 < 2 ^ 53"
    by simp
  moreover have "\<bar>2 ^ 53 + 4 :: int\<bar> < 2 ^ 54"
    by simp
  then have "\<bar>2 ^ 53 + 4 :: int\<bar> < 2 ^ 1024"
    using lt by (rule less_trans)
  ultimately show "double_integer (2 ^ 53 + 4)"
    unfolding double_integer_def by blast
  show "\<not> double_integer (2 ^ 53 + 3)"
  proof
    assume "double_integer (2 ^ 53 + 3)"
    then obtain q :: int and e :: nat
      where qe: "\<bar>2 ^ 53 + 3 :: int\<bar> = q * 2 ^ e" and q: "q < 2 ^ 53"
      unfolding double_integer_def by blast
    have "e = 0"
    proof (rule ccontr)
      assume "e \<noteq> 0"
      then have "even (q * 2 ^ e)"
        by simp
      with qe have "even \<bar>2 ^ 53 + 3 :: int\<bar>"
        by simp
      then show False
        by simp
    qed
    with qe q show False
      by simp
  qed
qed

theorem estimateGas_passthrough_witness:
  "estimateGas \<lparr>verificationGasLimit = Some (2 ^ 54)\<rparr> = Inr \<lparr>est_verificationGasLimit = 2 ^ 54\<rparr> \<and>
   estimateGas \<lparr>verificationGasLimit = Some (2 ^ 53 + 3)\<rparr> =
     Inr \<lparr>est_verificationGasLimit = 2 ^ 53 + 4\<rparr> \<and>
   estimateGas \<lparr>verificationGasLimit = Some (2 ^ 53)\<rparr> = Inr \<lparr>est_verificationGasLimit = 2 ^ 53\<rparr> \<and>
   estimateGas \<lparr>verificationGasLimit = Some 21000\<rparr> = Inr \<lparr>est_verificationGasLimit = 21000\<rparr> \<and>
   estimateGas \<lparr>verificationGasLimit = None\<rparr> = Inr \<lparr>est_verificationGasLimit = 0\<rparr>"
proof -
  have r: "\<forall>v. verificationGasLimit \<lparr>verificationGasLimit = Some w\<rparr> = Some v \<longrightarrow> 0 \<le> v \<and> v < 2 ^ 256"
    if "0 \<le> w" and "w < 2 ^ 256" for w :: int
    using that by simp
  have big: "(0::int) \<le> 2 ^ 54" "(2::int) ^ 54 < 2 ^ 256"
    by simp_all
  from estimateGas_passthrough [OF r [OF big]] double_integer_54
  have one: "estimateGas \<lparr>verificationGasLimit = Some (2 ^ 54)\<rparr> =
      Inr \<lparr>est_verificationGasLimit = 2 ^ 54\<rparr>"
    by auto
  have safe: "(0::int) \<le> 2 ^ 53" "(2::int) ^ 53 < 2 ^ 256"
    by simp_all
  from estimateGas_passthrough [OF r [OF safe]]
  have two: "estimateGas \<lparr>verificationGasLimit = Some (2 ^ 53)\<rparr> =
      Inr \<lparr>est_verificationGasLimit = 2 ^ 53\<rparr>"
    by auto
  have small: "(0::int) \<le> 21000" "(21000::int) < 2 ^ 256"
    by simp_all
  from estimateGas_passthrough [OF r [OF small]]
  have three: "estimateGas \<lparr>verificationGasLimit = Some 21000\<rparr> =
      Inr \<lparr>est_verificationGasLimit = 21000\<rparr>"
    by auto
  from estimateGas_passthrough [of "\<lparr>verificationGasLimit = None\<rparr>"]
  have four: "estimateGas \<lparr>verificationGasLimit = None\<rparr> = Inr \<lparr>est_verificationGasLimit = 0\<rparr>"
    by auto
  have five: "estimateGas \<lparr>verificationGasLimit = Some (2 ^ 53 + 3)\<rparr> =
      Inr \<lparr>est_verificationGasLimit = 2 ^ 53 + 4\<rparr>"
  proof -
    have tie: "(0::int) \<le> 2 ^ 53 + 3" "(2::int) ^ 53 + 3 < 2 ^ 256"
      by simp_all
    from estimateGas_passthrough [OF r [OF tie]]
    obtain g where g: "estimateGas \<lparr>verificationGasLimit = Some (2 ^ 53 + 3)\<rparr> =
          Inr \<lparr>est_verificationGasLimit = g\<rparr>"
      and d: "double_integer g"
      and near: "\<And>x. double_integer x \<Longrightarrow> \<bar>g - (2 ^ 53 + 3)\<bar> \<le> \<bar>x - (2 ^ 53 + 3)\<bar>"
      and ties: "\<And>x. double_integer x \<Longrightarrow> x \<noteq> g \<Longrightarrow> \<bar>x - (2 ^ 53 + 3)\<bar> = \<bar>g - (2 ^ 53 + 3)\<bar> \<Longrightarrow>
          \<exists>k e. g = 2 * k * 2 ^ e \<and> \<bar>x - g\<bar> = 2 ^ e"
      by auto
    from near [OF double_integer_ties(1)] have "\<bar>g - (2 ^ 53 + 3)\<bar> \<le> 1"
      by simp
    then have "g = 2 ^ 53 + 2 \<or> g = 2 ^ 53 + 3 \<or> g = 2 ^ 53 + 4"
      by arith
    moreover from d double_integer_ties(3) have "g \<noteq> 2 ^ 53 + 3"
      by auto
    moreover have "g \<noteq> 2 ^ 53 + 2"
    proof
      assume low: "g = 2 ^ 53 + 2"
      then have ne: "2 ^ 53 + 4 \<noteq> g"
        and eq: "\<bar>2 ^ 53 + 4 - (2 ^ 53 + 3)\<bar> = \<bar>g - (2 ^ 53 + 3)\<bar>"
        by simp_all
      from ties [OF double_integer_ties(2) ne eq]
      obtain k :: int and e :: nat where k': "g = 2 * k * 2 ^ e" and e': "\<bar>2 ^ 53 + 4 - g\<bar> = 2 ^ e"
        by blast
      from k' low have k: "(2::int) ^ 53 + 2 = 2 * k * 2 ^ e"
        by simp
      from e' low have e: "(2::int) = 2 ^ e"
        by simp
      from e have "e = 1"
        using power_inject_exp [of "2::int" e 1] by simp
      with k have "(2::int) ^ 53 + 2 = 4 * k"
        by simp
      then have "(4::int) dvd 2 ^ 53 + 2"
        by (simp only: dvd_triv_left)
      then show False
        by simp
    qed
    ultimately have "g = 2 ^ 53 + 4"
      by blast
    with g show ?thesis
      by simp
  qed
  from one five two three four show ?thesis
    by blast
qed

section \<open>The test double, evaluated\<close>

lemmas mock_defs =
  mock_account_def mock_state_def mock_world_def mock_parameters_def mock_client_def
  mock_owner_def mock_library_def simpleImplementation_def

lemma mock_factory:
  "toSimpleNativeSmartAccount mock_library mock_parameters mock_world = (Inr mock_account, mock_state)"
  by (simp add: toSimpleNativeSmartAccount_def toNativeSmartAccount_def simpleImplementation_def
      getAddress_simple_def mock_parameters_def mock_client_def mock_world_def mock_account_def
      mock_state_def mock_library_def Let_def)

lemma abi_differ: "abi \<noteq> deployerAbi" "abi_tuples \<noteq> deployerAbi" "abi \<noteq> abi_tuples"
  by (simp_all add: abi_def deployerAbi_def abi_tuples_def)

lemma mock_getDeployerArgs:
  "getDeployerArgs (simpleImplementation mock_library mock_parameters) x =
     (Inr \<lparr>deployer = Some deployer_address, deployerData = Some (Hex ''5fbfb9cf03'')\<rparr>, x)"
  using abi_differ
  by (simp add: mock_defs getDeployerArgs_simple_def sync_def mock_encode_def nonce_or_zero_def)

section \<open>Deployment state\<close>

lemma isDeployed_cached: "deployed st \<Longrightarrow> account_isDeployed account st = (Inr True, st)"
  by (simp add: account_isDeployed_def)

lemma isDeployed_true_sets:
  "account_isDeployed account st = (Inr True, st') \<Longrightarrow> deployed st'"
  by (auto simp: account_isDeployed_def split: if_splits prod.splits sum.splits)

lemma isDeployed_calls_cached:
  "deployed st \<Longrightarrow> k < length changes \<Longrightarrow> isDeployed_calls account changes st ! k = Inr True"
proof (induction changes arbitrary: st k)
  case Nil
  then show ?case by simp
next
  case (Cons change changes)
  have d: "deployed (st\<lparr>external := change (external st)\<rparr>)"
    using Cons.prems(1) by simp
  have step: "account_isDeployed account (st\<lparr>external := change (external st)\<rparr>) =
      (Inr True, st\<lparr>external := change (external st)\<rparr>)"
    using d by (rule isDeployed_cached)
  show ?case
  proof (cases k)
    case 0
    then show ?thesis using step by simp
  next
    case (Suc k')
    then have "k' < length changes" using Cons.prems(2) by simp
    from Cons.IH [OF d this] show ?thesis using step Suc by simp
  qed
qed

text \<open>
  A call that nothing overlaps is its two halves, one after the other.
\<close>

lemma isDeployed_halves:
  "account_isDeployed account st =
     (case isDeployed_enter account st of
        (Returned b, st') \<Rightarrow> (Inr b, st')
      | (Awaiting answer, st') \<Rightarrow> isDeployed_resume answer st')"
  by (auto simp: account_isDeployed_def isDeployed_enter_def isDeployed_resume_def
      split: prod.splits sum.splits)

text \<open>
  Calls that are awaited one after the other keep the flag: a call that follows one that
  returned \<open>true\<close> returns \<open>true\<close>, whatever the chain answers by then.
\<close>

lemma isDeployed_awaited:
  assumes "i < j" and "j < length changes"
    and "isDeployed_calls account changes st ! i = Inr True"
  shows "isDeployed_calls account changes st ! j = Inr True"
  using assms
proof (induction changes arbitrary: st i j)
  case Nil
  then show ?case by simp
next
  case (Cons change changes)
  obtain r st' where step:
    "account_isDeployed account (st\<lparr>external := change (external st)\<rparr>) = (r, st')"
    by (cases "account_isDeployed account (st\<lparr>external := change (external st)\<rparr>)")
  obtain j' where j: "j = Suc j'"
    using Cons.prems(1) by (cases j) auto
  then have j': "j' < length changes"
    using Cons.prems(2) by simp
  show ?case
  proof (cases i)
    case 0
    then have "r = Inr True"
      using Cons.prems(3) step by simp
    then have "deployed st'"
      using step by (auto dest: isDeployed_true_sets)
    from isDeployed_calls_cached [OF this j'] show ?thesis
      using step j by simp
  next
    case (Suc i')
    then have lt: "i' < j'"
      using Cons.prems(1) j by simp
    have at_i: "isDeployed_calls account changes st' ! i' = Inr True"
      using Cons.prems(3) step Suc by simp
    have "isDeployed_calls account changes st' ! j' = Inr True"
      using lt j' at_i by (rule Cons.IH)
    then show ?thesis
      using step j by simp
  qed
qed

text \<open>
  C3 says that once one \<open>isDeployed()\<close> of an account has returned \<open>true\<close>, every
  later one returns \<open>true\<close>, and that a later negative probe cannot overwrite the flag.
  The code breaks this when two calls overlap. Call 1 enters while the account has no
  code, and the chain answers it so; the account is deployed; call 2 enters, is answered
  with the code and returns \<open>true\<close>, with the flag set. Then call 1 resumes: its
  assignment after the \<^verbatim>\<open>await\<close> does not look at the flag, writes \<open>false\<close> over it,
  and call 1 returns \<open>false\<close>. A call 3 made after both, which a node answers without
  the code, finds the flag unset, probes, and returns \<open>false\<close> too.
\<close>

theorem isDeployed_overlap_overwrites:
  "deployed (run_state (run_events mock_account
     [Enter 1, Outside (\<lambda>x. x\<lparr>world_code := Some (Hex ''6080'')\<rparr>), Enter 2, Resume 2]
     mock_state)) \<and>
   run_returned (run_events mock_account
     [Enter 1, Outside (\<lambda>x. x\<lparr>world_code := Some (Hex ''6080'')\<rparr>), Enter 2, Resume 2]
     mock_state) = [(2, Inr True)] \<and>
   \<not> deployed (run_state (run_events mock_account
     [Enter 1, Outside (\<lambda>x. x\<lparr>world_code := Some (Hex ''6080'')\<rparr>), Enter 2, Resume 2, Resume 1]
     mock_state)) \<and>
   run_returned (run_events mock_account
     [Enter 1, Outside (\<lambda>x. x\<lparr>world_code := Some (Hex ''6080'')\<rparr>), Enter 2, Resume 2, Resume 1,
      Outside (\<lambda>x. x\<lparr>world_code := None\<rparr>), Enter 3, Resume 3]
     mock_state) = [(2, Inr True), (1, Inr False), (3, Inr False)]"
  by (simp add: run_events_def isDeployed_enter_def isDeployed_resume_def mock_defs truthy_def
      truthy_string_def)

section \<open>Deployer arguments\<close>

lemma getDeployerArgs_deployed:
  "account_isDeployed account st = (Inr True, st') \<Longrightarrow>
   account_getDeployerArgs account st = (Inr \<lparr>deployer = None, deployerData = None\<rparr>, st')"
  by (simp add: account_getDeployerArgs_def await_def resolve_def)

lemma getDeployerArgs_undeployed:
  "account_isDeployed account st = (Inr False, st') \<Longrightarrow>
   account_getDeployerArgs account st = outside (getDeployerArgs (implementation account)) st'"
  by (simp add: account_getDeployerArgs_def await_def)

lemma simple_getDeployerArgs_both:
  "getDeployerArgs (simpleImplementation lib parameters) x = (Inr da, x') \<Longrightarrow>
   deployer da = Some deployer_address \<and>
   (\<exists>d. deployerData da = Some d \<and>
      encodeFunctionData lib deployerAbi ''createAccount''
        [AbiAddress (owner_address (owner parameters)), AbiUint (nonce_or_zero parameters)] = Inr d)"
  by (auto simp: simpleImplementation_def getDeployerArgs_simple_def sync_def split: sum.splits)

lemma getDeployerArgs_cases:
  "account_getDeployerArgs account st = (Inr da, st') \<Longrightarrow>
   (da = \<lparr>deployer = None, deployerData = None\<rparr>) \<or>
   (\<exists>x x'. getDeployerArgs (implementation account) x = (Inr da, x'))"
  by (auto simp: account_getDeployerArgs_def await_def resolve_def outside_def
      split: prod.splits sum.splits if_splits)

text \<open>
  C2: a call of the account's \<open>getDeployerArgs()\<close> in which \<open>isDeployed()\<close> returns
  \<open>true\<close> gives \<open>{deployer: undefined, deployerData: undefined}\<close>; one in which it
  returns \<open>false\<close> gives what the implementation's own \<open>getDeployerArgs()\<close> gives. The
  simple implementation's always has both fields, the fixed deployer address and the
  encoded \<open>createAccount(ownerAddress, nonce)\<close>; so of an account over the simple
  implementation the result never has exactly one of the fields.
\<close>

theorem getDeployerArgs_gating:
  "(account_isDeployed account st = (Inr True, st') \<longrightarrow>
      account_getDeployerArgs account st = (Inr \<lparr>deployer = None, deployerData = None\<rparr>, st')) \<and>
   (account_isDeployed account st = (Inr False, st') \<longrightarrow>
      account_getDeployerArgs account st = outside (getDeployerArgs (implementation account)) st') \<and>
   (getDeployerArgs (simpleImplementation lib parameters) x = (Inr deployerArgs, x') \<longrightarrow>
      deployer deployerArgs = Some deployer_address \<and>
      (\<exists>d. deployerData deployerArgs = Some d \<and>
         encodeFunctionData lib deployerAbi ''createAccount''
           [AbiAddress (owner_address (owner parameters)),
            AbiUint (case nonce parameters of None \<Rightarrow> 0 | Some n \<Rightarrow> n)] = Inr d)) \<and>
   (implementation simpleAccount = simpleImplementation lib parameters \<longrightarrow>
      account_getDeployerArgs simpleAccount s = (Inr result, s') \<longrightarrow>
      (deployer result = None \<longleftrightarrow> deployerData result = None))"
proof (intro conjI impI)
  assume "account_isDeployed account st = (Inr True, st')"
  then show "account_getDeployerArgs account st =
      (Inr \<lparr>deployer = None, deployerData = None\<rparr>, st')"
    by (rule getDeployerArgs_deployed)
next
  assume "account_isDeployed account st = (Inr False, st')"
  then show "account_getDeployerArgs account st =
      outside (getDeployerArgs (implementation account)) st'"
    by (rule getDeployerArgs_undeployed)
next
  assume "getDeployerArgs (simpleImplementation lib parameters) x = (Inr deployerArgs, x')"
  from simple_getDeployerArgs_both [OF this]
  show "deployer deployerArgs = Some deployer_address"
    and "\<exists>d. deployerData deployerArgs = Some d \<and>
         encodeFunctionData lib deployerAbi ''createAccount''
           [AbiAddress (owner_address (owner parameters)),
            AbiUint (case nonce parameters of None \<Rightarrow> 0 | Some n \<Rightarrow> n)] = Inr d"
    by (simp_all add: nonce_or_zero_def)
next
  assume i: "implementation simpleAccount = simpleImplementation lib parameters"
    and r: "account_getDeployerArgs simpleAccount s = (Inr result, s')"
  from getDeployerArgs_cases [OF r] i
  show "deployer result = None \<longleftrightarrow> deployerData result = None"
    by (auto dest: simple_getDeployerArgs_both)
qed

theorem getDeployerArgs_gating_witness:
  "account_getDeployerArgs mock_account (mock_state\<lparr>deployed := True\<rparr>) =
     (Inr \<lparr>deployer = None, deployerData = None\<rparr>, mock_state\<lparr>deployed := True\<rparr>) \<and>
   account_getDeployerArgs mock_account mock_state =
     (Inr \<lparr>deployer = Some deployer_address, deployerData = Some (Hex ''5fbfb9cf03'')\<rparr>, mock_state) \<and>
   encodeFunctionData mock_library deployerAbi ''createAccount''
     [AbiAddress (Hex ''f39fd6e51aad88f6f4ce6ab8827279cfffb92266''), AbiUint 0] = Inr (Hex ''5fbfb9cf03'')"
proof -
  have d: "account_isDeployed mock_account (mock_state\<lparr>deployed := True\<rparr>) =
      (Inr True, mock_state\<lparr>deployed := True\<rparr>)"
    by (simp add: account_isDeployed_def)
  have u: "account_isDeployed mock_account mock_state = (Inr False, mock_state)"
    by (simp add: account_isDeployed_def mock_defs truthy_def)
  have i: "implementation mock_account = simpleImplementation mock_library mock_parameters"
    by (simp add: mock_account_def)
  have g: "getDeployerArgs (simpleImplementation mock_library mock_parameters) mock_world =
      (Inr \<lparr>deployer = Some deployer_address, deployerData = Some (Hex ''5fbfb9cf03'')\<rparr>, mock_world)"
    by (rule mock_getDeployerArgs)
  have o: "outside (getDeployerArgs (implementation mock_account)) mock_state =
      (Inr \<lparr>deployer = Some deployer_address, deployerData = Some (Hex ''5fbfb9cf03'')\<rparr>, mock_state)"
    by (simp add: outside_def i mock_getDeployerArgs)
  from getDeployerArgs_gating [of mock_account "mock_state\<lparr>deployed := True\<rparr>"
      "mock_state\<lparr>deployed := True\<rparr>"] d
  have one: "account_getDeployerArgs mock_account (mock_state\<lparr>deployed := True\<rparr>) =
      (Inr \<lparr>deployer = None, deployerData = None\<rparr>, mock_state\<lparr>deployed := True\<rparr>)"
    by blast
  from getDeployerArgs_gating [of mock_account mock_state mock_state] u
  have "account_getDeployerArgs mock_account mock_state =
      outside (getDeployerArgs (implementation mock_account)) mock_state"
    by blast
  with o have two: "account_getDeployerArgs mock_account mock_state =
      (Inr \<lparr>deployer = Some deployer_address, deployerData = Some (Hex ''5fbfb9cf03'')\<rparr>, mock_state)"
    by simp
  from getDeployerArgs_gating [of _ _ _ mock_library mock_parameters mock_world _ mock_world] g
  have three: "\<exists>d. Some (Hex ''5fbfb9cf03'') = Some d \<and>
      encodeFunctionData mock_library deployerAbi ''createAccount''
        [AbiAddress (owner_address (owner mock_parameters)),
         AbiUint (case nonce mock_parameters of None \<Rightarrow> 0 | Some n \<Rightarrow> n)] = Inr d"
    by fastforce
  then have "encodeFunctionData mock_library deployerAbi ''createAccount''
     [AbiAddress (Hex ''f39fd6e51aad88f6f4ce6ab8827279cfffb92266''), AbiUint 0] = Inr (Hex ''5fbfb9cf03'')"
    by (simp add: mock_parameters_def mock_owner_def)
  with one two show ?thesis
    by simp
qed

lemma mock_getDeployerArgs_undeployed:
  "account_getDeployerArgs mock_account mock_state =
     (Inr \<lparr>deployer = Some deployer_address, deployerData = Some (Hex ''5fbfb9cf03'')\<rparr>, mock_state)"
proof -
  have "account_isDeployed mock_account mock_state = (Inr False, mock_state)"
    by (simp add: account_isDeployed_def mock_defs truthy_def)
  then have "account_getDeployerArgs mock_account mock_state =
      outside (getDeployerArgs (implementation mock_account)) mock_state"
    by (rule getDeployerArgs_undeployed)
  then show ?thesis
    by (simp add: outside_def mock_account_def mock_getDeployerArgs)
qed

lemma mock_getDeployerArgs_deployed:
  "account_getDeployerArgs mock_account (mock_state\<lparr>deployed := True\<rparr>) =
     (Inr \<lparr>deployer = None, deployerData = None\<rparr>, mock_state\<lparr>deployed := True\<rparr>)"
  by (rule getDeployerArgs_deployed) (simp add: account_isDeployed_def)

section \<open>Signatures of the account\<close>

lemma truthy_Some: "truthy (Some h)"
  by (cases h) (simp add: truthy_def truthy_string_def)

lemma wrapSignature_defined:
  "wrapSignature lib (deployerArgs, signature) =
     (case deployer deployerArgs of
        None \<Rightarrow> Inr signature
      | Some d \<Rightarrow>
          (case deployerData deployerArgs of
             None \<Rightarrow> Inr signature
           | Some dd \<Rightarrow> serializeErc6492Signature lib d dd signature))"
  by (simp add: wrapSignature_def truthy_Some split: option.splits)

lemma wrapped_signing:
  assumes "account_getDeployerArgs account st = (Inr deployerArgs, st1)"
    and "outside signing st1 = (Inr signature, st2)"
  shows "await (Promise_all (account_getDeployerArgs account) (outside signing))
           (\<lambda>r. sync (wrapSignature lib r)) st =
         (wrapSignature lib (deployerArgs, signature), st2)"
  using assms by (simp add: await_def Promise_all_def sync_def)

text \<open>
  C1: a call of the account's \<open>signMessage\<close>, \<open>signTypedData\<close> or, when the
  implementation has one, \<open>sign\<close>, in which \<open>getDeployerArgs()\<close> and the
  implementation's signing operation both resolve, gives the ERC-6492 serialization of
  the deployer's address, the deployer's calldata and the raw signature when the deployer
  arguments have both fields, and the raw signature itself otherwise. An account over an
  implementation without \<open>sign\<close> has no \<open>sign\<close>.
\<close>

theorem signature_wrapping:
  assumes "account_getDeployerArgs account st = (Inr deployerArgs, st1)"
  shows "(outside (signMessage (implementation account) m) st1 = (Inr signature, st2) \<longrightarrow>
          account_signMessage lib account m st =
            ((case deployer deployerArgs of
                None \<Rightarrow> Inr signature
              | Some d \<Rightarrow>
                  (case deployerData deployerArgs of
                     None \<Rightarrow> Inr signature
                   | Some dd \<Rightarrow> serializeErc6492Signature lib d dd signature)), st2)) \<and>
         (outside (signTypedData (implementation account) typedData) st1 = (Inr signature, st2) \<longrightarrow>
          account_signTypedData lib account typedData st =
            ((case deployer deployerArgs of
                None \<Rightarrow> Inr signature
              | Some d \<Rightarrow>
                  (case deployerData deployerArgs of
                     None \<Rightarrow> Inr signature
                   | Some dd \<Rightarrow> serializeErc6492Signature lib d dd signature)), st2)) \<and>
         (\<forall>implementation_sign.
            sign (implementation account) = Some implementation_sign \<longrightarrow>
            outside (implementation_sign hash) st1 = (Inr signature, st2) \<longrightarrow>
            (\<exists>wrapped. account_sign lib account = Some wrapped \<and>
               wrapped hash st =
                 ((case deployer deployerArgs of
                     None \<Rightarrow> Inr signature
                   | Some d \<Rightarrow>
                       (case deployerData deployerArgs of
                          None \<Rightarrow> Inr signature
                        | Some dd \<Rightarrow> serializeErc6492Signature lib d dd signature)), st2))) \<and>
         (sign (implementation account) = None \<longrightarrow> account_sign lib account = None)"
proof (intro conjI impI allI)
  assume "outside (signMessage (implementation account) m) st1 = (Inr signature, st2)"
  from wrapped_signing [OF assms this, of lib] show "account_signMessage lib account m st =
      ((case deployer deployerArgs of
          None \<Rightarrow> Inr signature
        | Some d \<Rightarrow>
            (case deployerData deployerArgs of
               None \<Rightarrow> Inr signature
             | Some dd \<Rightarrow> serializeErc6492Signature lib d dd signature)), st2)"
    by (simp add: account_signMessage_def wrapSignature_defined)
next
  assume "outside (signTypedData (implementation account) typedData) st1 = (Inr signature, st2)"
  from wrapped_signing [OF assms this, of lib] show "account_signTypedData lib account typedData st =
      ((case deployer deployerArgs of
          None \<Rightarrow> Inr signature
        | Some d \<Rightarrow>
            (case deployerData deployerArgs of
               None \<Rightarrow> Inr signature
             | Some dd \<Rightarrow> serializeErc6492Signature lib d dd signature)), st2)"
    by (simp add: account_signTypedData_def wrapSignature_defined)
next
  fix implementation_sign
  assume s: "sign (implementation account) = Some implementation_sign"
    and r: "outside (implementation_sign hash) st1 = (Inr signature, st2)"
  from wrapped_signing [OF assms r, of lib] s
  show "\<exists>wrapped. account_sign lib account = Some wrapped \<and>
      wrapped hash st =
        ((case deployer deployerArgs of
            None \<Rightarrow> Inr signature
          | Some d \<Rightarrow>
              (case deployerData deployerArgs of
                 None \<Rightarrow> Inr signature
               | Some dd \<Rightarrow> serializeErc6492Signature lib d dd signature)), st2)"
    by (simp add: account_sign_def wrapSignature_defined)
next
  assume "sign (implementation account) = None"
  then show "account_sign lib account = None"
    by (simp add: account_sign_def)
qed

lemma mock_signMessage:
  "signMessage_simple mock_library mock_parameters (Message ''hi'') (external mock_state) =
     (Inr (Hex (''51e712'' @ ''00000000000000000000000000000000000000aa'' @ ''e191'')),
      external mock_state)"
  by (simp add: signMessage_simple_def sign_replaySafe_def getAddress_simple_def await_def sync_def
      toReplaySafeHash_def sign_owner_def digits_def mock_defs)

lemma mock_sign:
  "sign_simple mock_library mock_parameters (Hex ''abcd'') (external mock_state) =
     (Inr (Hex (''51e712'' @ ''00000000000000000000000000000000000000aa'' @ ''abcd'')),
      external mock_state)"
  by (simp add: sign_simple_def sign_replaySafe_def getAddress_simple_def await_def sync_def
      toReplaySafeHash_def sign_owner_def digits_def mock_defs)

theorem signature_wrapping_witness:
  "account_signMessage mock_library mock_account (Message ''hi'') mock_state =
     (Inr (Hex (''0ba5ed0c6aa8c49038f819e587e2633c4a9f428a'' @ ''5fbfb9cf03'' @
        ''51e712'' @ ''00000000000000000000000000000000000000aa'' @ ''e191'' @
        ''6492649264926492'')), mock_state) \<and>
   account_signMessage mock_library mock_account (Message ''hi'') (mock_state\<lparr>deployed := True\<rparr>) =
     (Inr (Hex (''51e712'' @ ''00000000000000000000000000000000000000aa'' @ ''e191'')),
      mock_state\<lparr>deployed := True\<rparr>) \<and>
   (\<exists>wrapped. account_sign mock_library mock_account = Some wrapped \<and>
      wrapped (Hex ''abcd'') mock_state =
        (Inr (Hex (''0ba5ed0c6aa8c49038f819e587e2633c4a9f428a'' @ ''5fbfb9cf03'' @
           ''51e712'' @ ''00000000000000000000000000000000000000aa'' @ ''abcd'' @
           ''6492649264926492'')), mock_state))"
proof -
  let ?signature = "Hex (''51e712'' @ ''00000000000000000000000000000000000000aa'' @ ''e191'')"
  let ?raw = "Hex (''51e712'' @ ''00000000000000000000000000000000000000aa'' @ ''abcd'')"
  have m1: "outside (signMessage (implementation mock_account) (Message ''hi'')) mock_state =
      (Inr ?signature, mock_state)"
    using mock_signMessage by (simp add: outside_def mock_account_def simpleImplementation_def)
  have m2: "outside (signMessage (implementation mock_account) (Message ''hi''))
      (mock_state\<lparr>deployed := True\<rparr>) = (Inr ?signature, mock_state\<lparr>deployed := True\<rparr>)"
    using mock_signMessage by (simp add: outside_def mock_account_def simpleImplementation_def)
  have s: "sign (implementation mock_account) = Some (sign_simple mock_library mock_parameters)"
    by (simp add: mock_account_def simpleImplementation_def)
  have m3: "outside (sign_simple mock_library mock_parameters (Hex ''abcd'')) mock_state =
      (Inr ?raw, mock_state)"
    using mock_sign by (simp add: outside_def)
  from signature_wrapping [OF mock_getDeployerArgs_undeployed, of "Message ''hi''" ?signature
      mock_state mock_library] m1
  have one: "account_signMessage mock_library mock_account (Message ''hi'') mock_state =
      (serializeErc6492Signature mock_library deployer_address (Hex ''5fbfb9cf03'') ?signature,
       mock_state)"
    by simp
  from signature_wrapping [OF mock_getDeployerArgs_deployed, of "Message ''hi''" ?signature
      "mock_state\<lparr>deployed := True\<rparr>" mock_library] m2
  have two: "account_signMessage mock_library mock_account (Message ''hi'')
      (mock_state\<lparr>deployed := True\<rparr>) = (Inr ?signature, mock_state\<lparr>deployed := True\<rparr>)"
    by simp
  from signature_wrapping [OF mock_getDeployerArgs_undeployed, of _ ?raw mock_state mock_library
      _ "Hex ''abcd''"] s m3
  have three: "\<exists>wrapped. account_sign mock_library mock_account = Some wrapped \<and>
      wrapped (Hex ''abcd'') mock_state =
        (serializeErc6492Signature mock_library deployer_address (Hex ''5fbfb9cf03'') ?raw,
         mock_state)"
    by simp
  from one two three show ?thesis
    by (simp add: mock_library_def digits_def deployer_address_def)
qed

section \<open>The nonce of the account\<close>

text \<open>
  C7: with a \<open>key\<close> in its parameters, \<open>getNonce\<close> uses that key and does not touch
  the nonce key manager: the outcome is the same with any other manager bound. Without a
  key, it consumes the bound manager at the account's address and the client's chain id,
  and the key is the consumed number as a bigint. With the key it calls the
  implementation's \<open>getNonce\<close> when there is one, and otherwise reads \<open>getNonce(address,
  key)\<close> from the nonce manager predeploy.
\<close>

theorem getNonce_key:
  "(key p = Some k \<longrightarrow>
      account_getNonce lib account (Some p) st =
        (case getNonce (implementation account) of
           Some f \<Rightarrow> outside (f \<lparr>key = Some k\<rparr>) st
         | None \<Rightarrow>
             outside (readContract_uint256 (client (implementation account)) getNonce_abi
               (nonceManagerPredeployAddress lib) ''getNonce''
               [AbiAddress (address account), AbiUint k]) st) \<and>
      account_getNonce lib (account\<lparr>account_nonceKeyManager := other\<rparr>) (Some p) st =
        account_getNonce lib account (Some p) st) \<and>
   ((parameters = None \<or> (\<exists>q. parameters = Some q \<and> key q = None)) \<longrightarrow>
      chain (client (implementation account)) = Some c \<longrightarrow>
      outside (consume (account_nonceKeyManager account) (address account) (chain_id c)
        (client (implementation account))) st = (Inr (Integer n), st1) \<longrightarrow>
      account_getNonce lib account parameters st =
        (case getNonce (implementation account) of
           Some f \<Rightarrow> outside (f \<lparr>key = Some n\<rparr>) st1
         | None \<Rightarrow>
             outside (readContract_uint256 (client (implementation account)) getNonce_abi
               (nonceManagerPredeployAddress lib) ''getNonce''
               [AbiAddress (address account), AbiUint n]) st1))"
  by (auto simp: account_getNonce_def await_def resolve_def sync_def BigInt_def
      split: option.splits)

lemma mock_consume:
  "outside (consume (account_nonceKeyManager mock_account) (address mock_account) 11171168
      (client (implementation mock_account))) mock_state =
   (Inr (Integer 1700000000000),
    mock_state\<lparr>external := external mock_state\<lparr>world_consumed := 1\<rparr>\<rparr>)"
  by (simp add: outside_def defaultNonceKeyManager_def mock_createNonceManager_def await_def
      resolve_def mock_defs)

theorem getNonce_key_witness:
  "account_getNonce mock_library mock_account (Some \<lparr>key = Some 0\<rparr>) mock_state =
     (Inr 5, mock_state) \<and>
   account_getNonce mock_library mock_account None mock_state =
     (Inr 1700000000005, mock_state\<lparr>external := external mock_state\<lparr>world_consumed := 1\<rparr>\<rparr>)"
proof -
  have n: "getNonce (implementation mock_account) = None"
    by (simp add: mock_account_def simpleImplementation_def)
  have r: "\<And>k st. outside (readContract_uint256 (client (implementation mock_account)) getNonce_abi
      (nonceManagerPredeployAddress mock_library) ''getNonce''
      [AbiAddress (address mock_account), AbiUint k]) st = (Inr (k + 5), st)"
    by (simp add: outside_def mock_account_def simpleImplementation_def mock_parameters_def
        mock_client_def)
  have c: "chain (client (implementation mock_account)) = Some \<lparr>chain_id = 11171168\<rparr>"
    by (simp add: mock_account_def simpleImplementation_def mock_parameters_def mock_client_def)
  have "key \<lparr>key = Some (0::int)\<rparr> = Some 0"
    by simp
  with getNonce_key [of "\<lparr>key = Some 0\<rparr>" 0 mock_library mock_account mock_state]
  have one: "account_getNonce mock_library mock_account (Some \<lparr>key = Some 0\<rparr>) mock_state =
      (Inr 5, mock_state)"
    by (simp add: n r)
  from getNonce_key [of _ _ mock_library mock_account mock_state _ None "\<lparr>chain_id = 11171168\<rparr>"
      1700000000000 "mock_state\<lparr>external := external mock_state\<lparr>world_consumed := 1\<rparr>\<rparr>"]
    c mock_consume
  have two: "account_getNonce mock_library mock_account None mock_state =
      (Inr 1700000000005, mock_state\<lparr>external := external mock_state\<lparr>world_consumed := 1\<rparr>\<rparr>)"
    by (simp add: n r)
  from one two show ?thesis
    by simp
qed

section \<open>Signatures of the simple implementation\<close>

lemma getAddress_simple_cached:
  "getAddress_simple parameters x = (Inr a, x') \<Longrightarrow>
   getAddress_simple parameters x' = (Inr a, x')"
  by (auto simp: getAddress_simple_def split: option.splits prod.splits sum.splits)

lemma toSimple_address:
  assumes "toSimpleNativeSmartAccount lib parameters x0 = (Inr account, st)"
  shows "getAddress_simple parameters (external st) = (Inr (address account), external st)"
proof -
  obtain r x' where g:
    "getAddress_simple parameters (x0\<lparr>address_variable := parameters_address parameters\<rparr>) = (r, x')"
    by (cases "getAddress_simple parameters (x0\<lparr>address_variable := parameters_address parameters\<rparr>)")
  from assms g have "r = Inr (address account)" and "external st = x'"
    by (auto simp: toSimpleNativeSmartAccount_def toNativeSmartAccount_def
        simpleImplementation_def Let_def split: sum.splits)
  with g show ?thesis
    by (auto dest: getAddress_simple_cached)
qed

lemma sign_replaySafe_result:
  assumes "getAddress_simple parameters x = (Inr a, x1)"
    and "chain (parameters_client parameters) = Some c"
    and "owner_sign (owner parameters) = Some owner_signature"
    and "inner = Inr h"
    and "hashTypedData lib (replaySafeTypedData a (chain_id c) h) = Inr replaySafeHash"
  shows "sign_replaySafe lib parameters inner x = owner_signature replaySafeHash x1"
  using assms
  by (simp add: sign_replaySafe_def await_def sync_def toReplaySafeHash_def sign_owner_def)

text \<open>
  C5: when the account's address resolves, the client has a chain and the owner can sign a
  raw hash, each of \<open>sign\<close>, \<open>signMessage\<close> and \<open>signTypedData\<close> of the simple
  implementation returns what the owner's \<open>sign\<close> returns for the EIP-712 hash of
  \<open>replaySafeTypedData\<close>: domain \<open>Simple Native Smart Wallet\<close>, version \<open>1\<close>, the
  client's chain id and the account's address as verifying contract, primary type
  \<open>SimpleNativeSmartWalletMessage\<close> with the one \<open>bytes32\<close> field \<open>hash\<close>, whose
  value is the given hash, \<open>hashMessage(message)\<close> and \<open>hashTypedData(parameters)\<close>
  in turn. In an account the factory made, that address is the account's \<open>address\<close>.
\<close>

theorem simple_signatures_replaySafe:
  assumes "getAddress_simple parameters x = (Inr a, x1)"
    and "chain (parameters_client parameters) = Some c"
    and "owner_sign (owner parameters) = Some owner_signature"
  shows "(hashTypedData lib (replaySafeTypedData a (chain_id c) hash) = Inr replaySafeHash \<longrightarrow>
          sign_simple lib parameters hash x = owner_signature replaySafeHash x1) \<and>
         (hashMessage lib m = Inr messageHash \<longrightarrow>
          hashTypedData lib (replaySafeTypedData a (chain_id c) messageHash) = Inr replaySafeHash \<longrightarrow>
          signMessage_simple lib parameters m x = owner_signature replaySafeHash x1) \<and>
         (hashTypedData lib typedData = Inr typedDataHash \<longrightarrow>
          hashTypedData lib (replaySafeTypedData a (chain_id c) typedDataHash) = Inr replaySafeHash \<longrightarrow>
          signTypedData_simple lib parameters typedData x = owner_signature replaySafeHash x1) \<and>
         (\<forall>x0 account st.
            toSimpleNativeSmartAccount lib parameters x0 = (Inr account, st) \<longrightarrow>
            getAddress_simple parameters (external st) = (Inr (address account), external st))"
  using assms
  by (auto simp: sign_simple_def signMessage_simple_def signTypedData_simple_def
      intro: sign_replaySafe_result toSimple_address)

theorem simple_signatures_replaySafe_witness:
  "sign_simple mock_library mock_parameters (Hex ''abcd'') (external mock_state) =
     (Inr (Hex (''51'' @ ''e712'' @ ''00000000000000000000000000000000000000aa'' @ ''abcd'')),
      external mock_state) \<and>
   signMessage_simple mock_library mock_parameters (Message ''hi'') (external mock_state) =
     (Inr (Hex (''51'' @ ''e712'' @ ''00000000000000000000000000000000000000aa'' @ ''e191'')),
      external mock_state) \<and>
   signTypedData_simple mock_library mock_parameters
     \<lparr>domain = None, types = [], primaryType = ''Mail'', message = []\<rparr> (external mock_state) =
     (Inr (Hex (''51'' @ ''e712'' @ ''00000000000000000000000000000000000000aa'' @ ''e712'')),
      external mock_state) \<and>
   getAddress_simple mock_parameters (external mock_state) =
     (Inr (address mock_account), external mock_state)"
proof -
  let ?a = "Hex ''00000000000000000000000000000000000000aa''"
  let ?c = "\<lparr>chain_id = 11171168\<rparr>"
  let ?f = "\<lambda>hash (x::MockWorld). (Inr (Hex (''51'' @ digits hash)) :: error + Hex, x)"
  have a: "getAddress_simple mock_parameters (external mock_state) = (Inr ?a, external mock_state)"
    by (simp add: getAddress_simple_def mock_state_def)
  have c: "chain (parameters_client mock_parameters) = Some ?c"
    by (simp add: mock_parameters_def mock_client_def)
  have f: "owner_sign (owner mock_parameters) = Some ?f"
    by (simp add: mock_parameters_def mock_owner_def)
  note t = simple_signatures_replaySafe [OF a c f, of mock_library]
  have h: "\<And>hash. hashTypedData mock_library (replaySafeTypedData ?a (chain_id ?c) hash) =
      Inr (Hex (''e712'' @ digits ?a @ digits hash))"
    by (simp add: mock_library_def)
  have m: "hashMessage mock_library (Message ''hi'') = Inr (Hex ''e191'')"
    by (simp add: mock_library_def)
  have d: "hashTypedData mock_library \<lparr>domain = None, types = [], primaryType = ''Mail'', message = []\<rparr> =
      Inr (Hex ''e712'')"
    by (simp add: mock_library_def)
  from t [where hash = "Hex ''abcd''"] h [of "Hex ''abcd''"]
  have one: "sign_simple mock_library mock_parameters (Hex ''abcd'') (external mock_state) =
      ?f (Hex (''e712'' @ digits ?a @ digits (Hex ''abcd''))) (external mock_state)"
    by blast
  from t [where m = "Message ''hi''" and messageHash = "Hex ''e191''"] m h [of "Hex ''e191''"]
  have two: "signMessage_simple mock_library mock_parameters (Message ''hi'') (external mock_state) =
      ?f (Hex (''e712'' @ digits ?a @ digits (Hex ''e191''))) (external mock_state)"
    by blast
  from t [where typedData = "\<lparr>domain = None, types = [], primaryType = ''Mail'', message = []\<rparr>"
      and typedDataHash = "Hex ''e712''"] d h [of "Hex ''e712''"]
  have three: "signTypedData_simple mock_library mock_parameters
      \<lparr>domain = None, types = [], primaryType = ''Mail'', message = []\<rparr> (external mock_state) =
      ?f (Hex (''e712'' @ digits ?a @ digits (Hex ''e712''))) (external mock_state)"
    by blast
  from t mock_factory
  have four: "getAddress_simple mock_parameters (external mock_state) =
      (Inr (address mock_account), external mock_state)"
    by blast
  from one two three four show ?thesis
    by (simp add: digits_def)
qed

section \<open>Calls encoded and decoded\<close>












section \<open>Calldata the implementation does not decode\<close>

lemma abi_named:
  "filter (\<lambda>f. abi_name f = ''execute'') abi =
     [\<lparr>abi_name = ''execute'', abi_inputs = [''address'', ''uint256'', ''bytes'']\<rparr>]"
  "filter (\<lambda>f. abi_name f = ''executeBatch'') abi =
     [\<lparr>abi_name = ''executeBatch'', abi_inputs = [''address[]'', ''uint256[]'', ''bytes[]'']\<rparr>]"
  by (simp_all add: abi_def)

lemma abi_tuples_named:
  "filter (\<lambda>f. abi_name f = ''execute'') abi_tuples =
     [\<lparr>abi_name = ''execute'', abi_inputs = [''address'', ''uint256'', ''bytes'']\<rparr>]"
  "filter (\<lambda>f. abi_name f = ''executeBatch'') abi_tuples =
     [\<lparr>abi_name = ''executeBatch'', abi_inputs = [''(address,uint256,bytes)[]'']\<rparr>]"
  by (simp_all add: abi_tuples_def)

lemma named_only:
  assumes "filter (\<lambda>f. abi_name f = n) a = [item]" and "f \<in> set a" and "abi_name f = n"
  shows "f = item"
proof -
  from assms(2,3) have "f \<in> {x \<in> set a. abi_name x = n}"
    by blast
  then have "f \<in> set (filter (\<lambda>f. abi_name f = n) a)"
    by (simp only: set_filter)
  then have "f \<in> set [item]"
    by (simp only: assms(1))
  then show ?thesis
    by simp
qed

lemma unsupported_arrays:
  assumes "codec_dispatch lib abi"
    and "calldata_selector calldata \<noteq>
         toFunctionSelector lib \<lparr>abi_name = ''execute'', abi_inputs = [''address'', ''uint256'', ''bytes'']\<rparr>"
    and "calldata_selector calldata \<noteq>
         toFunctionSelector lib
           \<lparr>abi_name = ''executeBatch'', abi_inputs = [''address[]'', ''uint256[]'', ''bytes[]'']\<rparr>"
  shows "decodeCalls_simple lib calldata =
           (case decodeFunctionData lib abi calldata of
              Inl e \<Rightarrow> Inl e
            | Inr result \<Rightarrow>
                Inl (BaseError (''unable to decode calls for \"'' @ functionName result @ ''\"'')))"
proof (cases "decodeFunctionData lib abi calldata")
  case (Inl e)
  then show ?thesis
    by (simp add: decodeCalls_simple_def)
next
  case (Inr result)
  with assms(1) obtain f where f: "f \<in> set abi" "abi_name f = functionName result"
      "toFunctionSelector lib f = calldata_selector calldata"
    unfolding codec_dispatch_def by blast
  have "functionName result \<noteq> ''execute''"
    using f assms(2) named_only [OF abi_named(1), of f] by auto
  moreover have "functionName result \<noteq> ''executeBatch''"
    using f assms(3) named_only [OF abi_named(2), of f] by auto
  ultimately show ?thesis
    using Inr by (simp add: decodeCalls_simple_def)
qed

lemma unsupported_tuples:
  assumes "codec_dispatch lib abi_tuples"
    and "calldata_selector calldata \<noteq>
         toFunctionSelector lib \<lparr>abi_name = ''execute'', abi_inputs = [''address'', ''uint256'', ''bytes'']\<rparr>"
    and "calldata_selector calldata \<noteq>
         toFunctionSelector lib
           \<lparr>abi_name = ''executeBatch'', abi_inputs = [''(address,uint256,bytes)[]'']\<rparr>"
  shows "decodeCalls_tuples lib calldata =
           (case decodeFunctionData lib abi_tuples calldata of
              Inl e \<Rightarrow> Inl e
            | Inr result \<Rightarrow>
                Inl (BaseError (''unable to decode calls for \"'' @ functionName result @ ''\"'')))"
proof (cases "decodeFunctionData lib abi_tuples calldata")
  case (Inl e)
  then show ?thesis
    by (simp add: decodeCalls_tuples_def)
next
  case (Inr result)
  with assms(1) obtain f where f: "f \<in> set abi_tuples" "abi_name f = functionName result"
      "toFunctionSelector lib f = calldata_selector calldata"
    unfolding codec_dispatch_def by blast
  have "functionName result \<noteq> ''execute''"
    using f assms(2) named_only [OF abi_tuples_named(1), of f] by auto
  moreover have "functionName result \<noteq> ''executeBatch''"
    using f assms(3) named_only [OF abi_tuples_named(2), of f] by auto
  ultimately show ?thesis
    using Inr by (simp add: decodeCalls_tuples_def)
qed

text \<open>
  C6: over a codec that finds the function by the selector, calldata whose selector is
  neither \<open>execute\<close>'s nor \<open>executeBatch\<close>'s never decodes to a list of calls:
  \<open>decodeCalls\<close> fails with the codec's own error when the codec knows no function for
  the selector, and with the error \<open>unable to decode calls for "name"\<close> when the
  selector is that of another function \<open>name\<close> of the ABI. This holds of both revisions.
\<close>

theorem decodeCalls_unsupported:
  "(codec_dispatch lib abi \<longrightarrow>
    calldata_selector calldata \<noteq>
      toFunctionSelector lib \<lparr>abi_name = ''execute'', abi_inputs = [''address'', ''uint256'', ''bytes'']\<rparr> \<longrightarrow>
    calldata_selector calldata \<noteq>
      toFunctionSelector lib
        \<lparr>abi_name = ''executeBatch'', abi_inputs = [''address[]'', ''uint256[]'', ''bytes[]'']\<rparr> \<longrightarrow>
    decodeCalls_simple lib calldata =
      (case decodeFunctionData lib abi calldata of
         Inl e \<Rightarrow> Inl e
       | Inr result \<Rightarrow>
           Inl (BaseError (''unable to decode calls for \"'' @ functionName result @ ''\"''))) \<and>
    (\<forall>calls. decodeCalls_simple lib calldata \<noteq> Inr calls)) \<and>
   (codec_dispatch lib abi_tuples \<longrightarrow>
    calldata_selector calldata \<noteq>
      toFunctionSelector lib \<lparr>abi_name = ''execute'', abi_inputs = [''address'', ''uint256'', ''bytes'']\<rparr> \<longrightarrow>
    calldata_selector calldata \<noteq>
      toFunctionSelector lib
        \<lparr>abi_name = ''executeBatch'', abi_inputs = [''(address,uint256,bytes)[]'']\<rparr> \<longrightarrow>
    decodeCalls_tuples lib calldata =
      (case decodeFunctionData lib abi_tuples calldata of
         Inl e \<Rightarrow> Inl e
       | Inr result \<Rightarrow>
           Inl (BaseError (''unable to decode calls for \"'' @ functionName result @ ''\"''))) \<and>
    (\<forall>calls. decodeCalls_tuples lib calldata \<noteq> Inr calls))"
proof (intro conjI impI)
  assume "codec_dispatch lib abi"
    and "calldata_selector calldata \<noteq>
      toFunctionSelector lib \<lparr>abi_name = ''execute'', abi_inputs = [''address'', ''uint256'', ''bytes'']\<rparr>"
    and "calldata_selector calldata \<noteq>
      toFunctionSelector lib
        \<lparr>abi_name = ''executeBatch'', abi_inputs = [''address[]'', ''uint256[]'', ''bytes[]'']\<rparr>"
  then have u: "decodeCalls_simple lib calldata =
      (case decodeFunctionData lib abi calldata of
         Inl e \<Rightarrow> Inl e
       | Inr result \<Rightarrow>
           Inl (BaseError (''unable to decode calls for \"'' @ functionName result @ ''\"'')))"
    by (rule unsupported_arrays)
  then show "decodeCalls_simple lib calldata =
      (case decodeFunctionData lib abi calldata of
         Inl e \<Rightarrow> Inl e
       | Inr result \<Rightarrow>
           Inl (BaseError (''unable to decode calls for \"'' @ functionName result @ ''\"'')))" .
  from u show "\<forall>calls. decodeCalls_simple lib calldata \<noteq> Inr calls"
    by (simp split: sum.splits)
next
  assume "codec_dispatch lib abi_tuples"
    and "calldata_selector calldata \<noteq>
      toFunctionSelector lib \<lparr>abi_name = ''execute'', abi_inputs = [''address'', ''uint256'', ''bytes'']\<rparr>"
    and "calldata_selector calldata \<noteq>
      toFunctionSelector lib
        \<lparr>abi_name = ''executeBatch'', abi_inputs = [''(address,uint256,bytes)[]'']\<rparr>"
  then have u: "decodeCalls_tuples lib calldata =
      (case decodeFunctionData lib abi_tuples calldata of
         Inl e \<Rightarrow> Inl e
       | Inr result \<Rightarrow>
           Inl (BaseError (''unable to decode calls for \"'' @ functionName result @ ''\"'')))"
    by (rule unsupported_tuples)
  then show "decodeCalls_tuples lib calldata =
      (case decodeFunctionData lib abi_tuples calldata of
         Inl e \<Rightarrow> Inl e
       | Inr result \<Rightarrow>
           Inl (BaseError (''unable to decode calls for \"'' @ functionName result @ ''\"'')))" .
  from u show "\<forall>calls. decodeCalls_tuples lib calldata \<noteq> Inr calls"
    by (simp split: sum.splits)
qed

lemma mock_codec_dispatch: "codec_dispatch mock_library abi" "codec_dispatch mock_library abi_tuples"
  unfolding codec_dispatch_def
  using abi_differ
  by (auto simp: mock_library_def mock_decode_def mock_selector_def calldata_selector_def abi_def
      abi_tuples_def split: if_splits)

theorem decodeCalls_unsupported_witness:
  "decodeCalls_simple mock_library (Hex ''c4d66de804'') =
     Inl (BaseError ''unable to decode calls for \"initialize\"'') \<and>
   decodeCalls_simple mock_library (Hex ''deadbeef'') =
     Inl (ExternalError ''AbiFunctionSignatureNotFoundError'') \<and>
   decodeCalls_tuples mock_library (Hex ''1626ba7e06'') =
     Inl (BaseError ''unable to decode calls for \"isValidSignature\"'')"
proof -
  have s1: "calldata_selector (Hex ''c4d66de804'') \<noteq> toFunctionSelector mock_library
      \<lparr>abi_name = ''execute'', abi_inputs = [''address'', ''uint256'', ''bytes'']\<rparr>"
    and s2: "calldata_selector (Hex ''c4d66de804'') \<noteq> toFunctionSelector mock_library
      \<lparr>abi_name = ''executeBatch'', abi_inputs = [''address[]'', ''uint256[]'', ''bytes[]'']\<rparr>"
    and u1: "calldata_selector (Hex ''deadbeef'') \<noteq> toFunctionSelector mock_library
      \<lparr>abi_name = ''execute'', abi_inputs = [''address'', ''uint256'', ''bytes'']\<rparr>"
    and u2: "calldata_selector (Hex ''deadbeef'') \<noteq> toFunctionSelector mock_library
      \<lparr>abi_name = ''executeBatch'', abi_inputs = [''address[]'', ''uint256[]'', ''bytes[]'']\<rparr>"
    and t1: "calldata_selector (Hex ''1626ba7e06'') \<noteq> toFunctionSelector mock_library
      \<lparr>abi_name = ''execute'', abi_inputs = [''address'', ''uint256'', ''bytes'']\<rparr>"
    and t2: "calldata_selector (Hex ''1626ba7e06'') \<noteq> toFunctionSelector mock_library
      \<lparr>abi_name = ''executeBatch'', abi_inputs = [''(address,uint256,bytes)[]'']\<rparr>"
    by (simp_all add: calldata_selector_def mock_library_def mock_selector_def)
  have d1: "decodeFunctionData mock_library abi (Hex ''c4d66de804'') =
      Inr \<lparr>functionName = ''initialize'', args = [AbiAddress mock_to]\<rparr>"
    and d2: "decodeFunctionData mock_library abi (Hex ''deadbeef'') =
      Inl (ExternalError ''AbiFunctionSignatureNotFoundError'')"
    by (simp_all add: mock_library_def mock_decode_def)
  have d3: "decodeFunctionData mock_library abi_tuples (Hex ''1626ba7e06'') =
      Inr \<lparr>functionName = ''isValidSignature'',
           args = [AbiBytes (Hex ''e191''), AbiBytes (Hex ''51'')]\<rparr>"
    using abi_differ by (simp add: mock_library_def mock_decode_def)
  from decodeCalls_unsupported [of mock_library "Hex ''c4d66de804''"] mock_codec_dispatch s1 s2 d1
  have one: "decodeCalls_simple mock_library (Hex ''c4d66de804'') =
      Inl (BaseError ''unable to decode calls for \"initialize\"'')"
    by simp
  from decodeCalls_unsupported [of mock_library "Hex ''deadbeef''"] mock_codec_dispatch u1 u2 d2
  have two: "decodeCalls_simple mock_library (Hex ''deadbeef'') =
      Inl (ExternalError ''AbiFunctionSignatureNotFoundError'')"
    by simp
  from decodeCalls_unsupported [of mock_library "Hex ''1626ba7e06''"] mock_codec_dispatch t1 t2 d3
  have three: "decodeCalls_tuples mock_library (Hex ''1626ba7e06'') =
      Inl (BaseError ''unable to decode calls for \"isValidSignature\"'')"
    by simp
  from one two three show ?thesis
    by blast
qed

end
